theory Spec2Isabelle
  imports Main "HOL-Library.Sublist"
begin

section \<open>JavaScript strings and the regular expressions the compiler uses\<close>

text \<open>
  A source text is a \<^typ>\<open>string\<close>: a list of 8-bit code units, read as Latin-1. The
  code units beyond U+00FF of a JavaScript string are outside the model; none of the
  patterns of the program mentions one.

  \<open>isSpace\<close> is the class \<open>\s\<close> (and what \<open>String.prototype.trim\<close> strips) on that range:
  TAB, LF, VT, FF, CR, SPACE and NBSP. \<open>isLineTerminator\<close> is what the anchors \<open>^\<close> and
  \<open>$\<close> of a multiline pattern look at and what \<open>.\<close> refuses: LF and CR.
  \<open>isWord\<close> is \<open>[a-zA-Z0-9_]\<close>, which is also \<open>[\w]\<close>.
\<close>

definition isSpace :: "char \<Rightarrow> bool" where
  "isSpace c = (c \<in> set [CHR 0x09, CHR 0x0A, CHR 0x0B, CHR 0x0C, CHR 0x0D, CHR 0x20, CHR 0xA0])"

definition isLineTerminator :: "char \<Rightarrow> bool" where
  "isLineTerminator c = (c = CHR 0x0A \<or> c = CHR 0x0D)"

definition isWord :: "char \<Rightarrow> bool" where
  "isWord c = (let n = (of_char c :: nat) in
     (97 \<le> n \<and> n \<le> 122) \<or> (65 \<le> n \<and> n \<le> 90) \<or> (48 \<le> n \<and> n \<le> 57) \<or> n = 95)"

definition anyChar :: "char \<Rightarrow> bool" where
  \<comment> \<open>\<open>[\s\S]\<close>\<close>
  "anyChar c = True"

definition dot :: "char \<Rightarrow> bool" where
  \<comment> \<open>\<open>.\<close> without the \<open>s\<close> flag\<close>
  "dot c = (\<not> isLineTerminator c)"

definition toLower :: "char \<Rightarrow> char" where
  \<comment> \<open>\<open>toLowerCase\<close> on one Latin-1 code unit\<close>
  "toLower c = (let n = (of_char c :: nat) in
     if (65 \<le> n \<and> n \<le> 90) \<or> (192 \<le> n \<and> n \<le> 222 \<and> n \<noteq> 215) then char_of (n + 32) else c)"

definition toLowerCase :: "string \<Rightarrow> string" where
  "toLowerCase s = map toLower s"

definition trim :: "string \<Rightarrow> string" where
  "trim s = rev (dropWhile isSpace (rev (dropWhile isSpace s)))"

fun str_includes :: "string \<Rightarrow> string \<Rightarrow> bool" where
  \<comment> \<open>\<open>s.includes(t)\<close>\<close>
  "str_includes [] t = (t = [])"
| "str_includes (c # cs) t = (prefix t (c # cs) \<or> str_includes cs t)"

text \<open>
  Every pattern of the program is a sequence of atoms, and every quantifier in them
  stands on a single character class. \<open>One p\<close> is one character of the class, \<open>Star p\<close>
  the greedy \<open>p*\<close>, \<open>Lazy p\<close> the reluctant \<open>p*?\<close>, \<open>Opt p\<close> the greedy \<open>p?\<close>; \<open>Bol\<close> and
  \<open>Eol\<close> are \<open>^\<close> and \<open>$\<close> under the \<open>m\<close> flag, \<open>End\<close> is \<open>$\<close> without it.

  \<open>rx_match r prev s\<close> runs the backtracking matcher of ECMAScript at the front of
  \<open>s\<close>, where \<open>prev\<close> is the character before that position (\<open>None\<close> at the start of
  the input). It tries the alternatives in the order of the language definition (a
  greedy quantifier takes a character first and gives it back only when the rest of the
  pattern fails, a reluctant one tries the rest of the pattern first) and returns the
  first success: the number of characters each atom has consumed.
\<close>

datatype atom =
    One "char \<Rightarrow> bool"
  | Star "char \<Rightarrow> bool"
  | Lazy "char \<Rightarrow> bool"
  | Opt "char \<Rightarrow> bool"
  | Bol
  | Eol
  | End

fun one_more :: "nat list \<Rightarrow> nat list" where
  "one_more [] = []"
| "one_more (n # ns) = Suc n # ns"

fun rx_match :: "atom list \<Rightarrow> char option \<Rightarrow> string \<Rightarrow> nat list option" where
  "rx_match [] prev s = Some []"
| "rx_match (One p # r) prev [] = None"
| "rx_match (One p # r) prev (c # cs) =
     (if p c then map_option (Cons 1) (rx_match r (Some c) cs) else None)"
| "rx_match (Star p # r) prev [] = map_option (Cons 0) (rx_match r prev [])"
| "rx_match (Star p # r) prev (c # cs) =
     (case (if p c then map_option one_more (rx_match (Star p # r) (Some c) cs) else None) of
        Some ns \<Rightarrow> Some ns
      | None \<Rightarrow> map_option (Cons 0) (rx_match r prev (c # cs)))"
| "rx_match (Lazy p # r) prev [] = map_option (Cons 0) (rx_match r prev [])"
| "rx_match (Lazy p # r) prev (c # cs) =
     (case rx_match r prev (c # cs) of
        Some ns \<Rightarrow> Some (0 # ns)
      | None \<Rightarrow> (if p c then map_option one_more (rx_match (Lazy p # r) (Some c) cs) else None))"
| "rx_match (Opt p # r) prev [] = map_option (Cons 0) (rx_match r prev [])"
| "rx_match (Opt p # r) prev (c # cs) =
     (case (if p c then map_option (Cons 1) (rx_match r (Some c) cs) else None) of
        Some ns \<Rightarrow> Some ns
      | None \<Rightarrow> map_option (Cons 0) (rx_match r prev (c # cs)))"
| "rx_match (Bol # r) prev s =
     (if (case prev of None \<Rightarrow> True | Some c \<Rightarrow> isLineTerminator c)
      then map_option (Cons 0) (rx_match r prev s) else None)"
| "rx_match (Eol # r) prev s =
     (if (case s of [] \<Rightarrow> True | c # cs \<Rightarrow> isLineTerminator c)
      then map_option (Cons 0) (rx_match r prev s) else None)"
| "rx_match (End # r) prev s =
     (if s = [] then map_option (Cons 0) (rx_match r prev s) else None)"

text \<open>
  \<open>rx_search\<close> is the search of \<open>RegExp.prototype.exec\<close> without the \<open>g\<close> flag: the first
  position, from the left, where the pattern matches, with the lengths the atoms
  consumed there.
\<close>

fun rx_search :: "atom list \<Rightarrow> char option \<Rightarrow> string \<Rightarrow> (nat \<times> nat list) option" where
  "rx_search r prev [] = map_option (Pair 0) (rx_match r prev [])"
| "rx_search r prev (c # cs) =
     (case rx_match r prev (c # cs) of
        Some ns \<Rightarrow> Some (0, ns)
      | None \<Rightarrow> map_option (\<lambda>(i, ns). (Suc i, ns)) (rx_search r (Some c) cs))"

definition rx_test :: "atom list \<Rightarrow> string \<Rightarrow> bool" where
  \<comment> \<open>\<open>regex.test(s)\<close>\<close>
  "rx_test r s = (rx_search r None s \<noteq> None)"

definition rx_group :: "nat \<Rightarrow> nat \<Rightarrow> string \<Rightarrow> nat \<times> nat list \<Rightarrow> string" where
  \<comment> \<open>the text matched by the atoms \<open>i..<j\<close> of the pattern: a capture group\<close>
  "rx_group i j s m =
     (case m of (start, ns) \<Rightarrow>
        take (sum_list (take (j - i) (drop i ns))) (drop (start + sum_list (take i ns)) s))"

definition replace_first :: "atom list \<Rightarrow> string \<Rightarrow> string \<Rightarrow> string" where
  \<comment> \<open>\<open>s.replace(regex, repl)\<close> without the \<open>g\<close> flag, for a \<open>repl\<close> without \<open>$\<close>\<close>
  "replace_first r repl s =
     (case rx_search r None s of
        None \<Rightarrow> s
      | Some (i, ns) \<Rightarrow> take i s @ repl @ drop (i + sum_list ns) s)"

text \<open>
  \<open>replace_all\<close> is \<open>s.replace(regex, repl)\<close> with the \<open>g\<close> flag. It walks the text once:
  \<open>skip\<close> counts the characters of the current match that are still to be dropped. A
  match starts where the previous one ended, and after an empty match the search moves
  on by one character, as \<open>lastIndex\<close> does.
\<close>

fun replace_all :: "atom list \<Rightarrow> string \<Rightarrow> nat \<Rightarrow> char option \<Rightarrow> string \<Rightarrow> string" where
  "replace_all r repl (Suc k) prev [] = []"
| "replace_all r repl 0 prev [] =
     (case rx_match r prev [] of Some ns \<Rightarrow> repl | None \<Rightarrow> [])"
| "replace_all r repl (Suc k) prev (c # cs) = replace_all r repl k (Some c) cs"
| "replace_all r repl 0 prev (c # cs) =
     (case rx_match r prev (c # cs) of
        None \<Rightarrow> c # replace_all r repl 0 (Some c) cs
      | Some ns \<Rightarrow>
         (if sum_list ns = 0 then repl @ c # replace_all r repl 0 (Some c) cs
          else repl @ replace_all r repl (sum_list ns - 1) (Some c) cs))"

definition replace_global :: "atom list \<Rightarrow> string \<Rightarrow> string \<Rightarrow> string" where
  "replace_global r repl s = replace_all r repl 0 None s"

definition lit :: "string \<Rightarrow> atom list" where
  \<comment> \<open>a literal piece of a pattern\<close>
  "lit s = map (\<lambda>c. One (\<lambda>x. x = c)) s"

definition lit_i :: "string \<Rightarrow> atom list" where
  \<comment> \<open>a literal piece of a pattern with the \<open>i\<close> flag\<close>
  "lit_i s = map (\<lambda>c. One (\<lambda>x. toLower x = toLower c)) s"

definition plus :: "(char \<Rightarrow> bool) \<Rightarrow> atom list" where
  \<comment> \<open>the greedy \<open>p+\<close>\<close>
  "plus p = [One p, Star p]"

section \<open>The compiler: sanitising the submitted source\<close>

text \<open>The patterns of \<open>compileComponent\<close>, in the order in which the function uses them.\<close>

definition rx_import_statement :: "atom list" where
  \<comment> \<open>\<open>/^\s*import\s+[\s\S]*?;\s*$/gm\<close>\<close>
  "rx_import_statement =
     [Bol, Star isSpace] @ lit ''import'' @ plus isSpace @ [Lazy anyChar] @ lit '';''
       @ [Star isSpace, Eol]"

definition rx_import_line :: "atom list" where
  \<comment> \<open>\<open>/^\s*import\s+.*$/gm\<close>\<close>
  "rx_import_line = [Bol, Star isSpace] @ lit ''import'' @ plus isSpace @ [Star dot, Eol]"

definition rx_export_default :: "atom list" where
  \<comment> \<open>\<open>/export\s+default\s+/\<close>\<close>
  "rx_export_default = lit ''export'' @ plus isSpace @ lit ''default'' @ plus isSpace"

definition rx_export_default_function_name :: "atom list" where
  \<comment> \<open>\<open>/export\s+default\s+function\s+([a-zA-Z0-9_]+)/\<close>; the group is the atoms 27 and 28\<close>
  "rx_export_default_function_name =
     lit ''export'' @ plus isSpace @ lit ''default'' @ plus isSpace @ lit ''function''
       @ plus isSpace @ plus isWord"

definition rx_export_default_name :: "atom list" where
  \<comment> \<open>\<open>/export\s+default\s+([a-zA-Z0-9_]+)/\<close>; the group is the atoms 17 and 18\<close>
  "rx_export_default_name =
     lit ''export'' @ plus isSpace @ lit ''default'' @ plus isSpace @ plus isWord"

definition rx_export_default_function :: "atom list" where
  \<comment> \<open>\<open>/export\s+default\s+function/\<close>\<close>
  "rx_export_default_function =
     lit ''export'' @ plus isSpace @ lit ''default'' @ plus isSpace @ lit ''function''"

definition rx_export_default_name_semi :: "atom list" where
  \<comment> \<open>\<open>/export\s+default\s+[a-zA-Z0-9_]+;?/\<close>\<close>
  "rx_export_default_name_semi =
     lit ''export'' @ plus isSpace @ lit ''default'' @ plus isSpace @ plus isWord
       @ [Opt (\<lambda>c. c = CHR '';'')]"

definition removeImports :: "string \<Rightarrow> string" where
  \<comment> \<open>step 1 of \<open>compileComponent\<close>: the two \<open>replace\<close> calls on import statements\<close>
  "removeImports cleanBody =
     replace_global rx_import_line []
       (replace_global rx_import_statement [] cleanBody)"

definition wrapBody :: "string \<Rightarrow> string" where
  \<comment> \<open>strategy B: the template literal around a bare body\<close>
  "wrapBody cleanBody =
     ''\<newline>        const DynamicComponent = (props) => {\<newline>          '' @ cleanBody
       @ ''\<newline>        };\<newline>      ''"

definition compilationStrategy :: "string \<Rightarrow> string \<times> string" where
  \<comment> \<open>step 2 of \<open>compileComponent\<close>: the pair \<open>(sourceCode, returnStatement)\<close>\<close>
  "compilationStrategy cleanBody =
     (if rx_test rx_export_default cleanBody then
        (case rx_search rx_export_default_function_name None cleanBody of
           Some funcMatch \<Rightarrow>
             (replace_first rx_export_default_function ''function'' cleanBody,
              ''return '' @ rx_group 27 29 cleanBody funcMatch @ '';'')
         | None \<Rightarrow>
             (case rx_search rx_export_default_name None cleanBody of
                Some varMatch \<Rightarrow>
                  (replace_first rx_export_default_name_semi [] cleanBody,
                   ''return '' @ rx_group 17 19 cleanBody varMatch @ '';'')
              | None \<Rightarrow>
                  (replace_first rx_export_default ''const DynamicComponent = '' cleanBody,
                   ''return DynamicComponent;'')))
      else (wrapBody cleanBody, ''return DynamicComponent;''))"

definition sanitize :: "string \<Rightarrow> string \<times> string" where
  \<comment> \<open>steps 1 and 2 together, from the submitted text\<close>
  "sanitize codeBody = compilationStrategy (removeImports (trim codeBody))"

text \<open>
  The earliest \<open>compileComponent\<close> of the repository sanitises differently: it removes
  the header of the exported function and then the last closing brace of the text, wraps
  whatever is left as a body, and knows one import pattern only.
\<close>

definition rx_export_header_003 :: "atom list" where
  \<comment> \<open>\<open>/export\s+default\s+function\s+[\w]+\s*\([^\)]*\)\s*\{/\<close>\<close>
  "rx_export_header_003 =
     lit ''export'' @ plus isSpace @ lit ''default'' @ plus isSpace @ lit ''function''
       @ plus isSpace @ plus isWord @ [Star isSpace] @ lit ''('' @ [Star (\<lambda>c. c \<noteq> CHR '')'')]
       @ lit '')'' @ [Star isSpace] @ lit ''{''"

definition rx_last_brace_003 :: "atom list" where
  \<comment> \<open>\<open>/\}\s*$/\<close>\<close>
  "rx_last_brace_003 = lit ''}'' @ [Star isSpace, End]"

definition rx_import_003 :: "atom list" where
  \<comment> \<open>\<open>/^import\s+.*$/gm\<close>\<close>
  "rx_import_003 = [Bol] @ lit ''import'' @ plus isSpace @ [Star dot, Eol]"

definition wrapBody_003 :: "string \<Rightarrow> string" where
  "wrapBody_003 cleanBody =
     ''\<newline>      const DynamicComponent = (props) => {\<newline>        '' @ cleanBody
       @ ''\<newline>      };\<newline>    ''"

definition stripExport_003 :: "string \<Rightarrow> string" where
  \<comment> \<open>the block under the comment \<open>SANITIZATION\<close>\<close>
  "stripExport_003 cleanBody =
     (if str_includes cleanBody ''export default function''
      then replace_first rx_last_brace_003 []
             (replace_first rx_export_header_003 [] cleanBody)
      else cleanBody)"

definition sanitize_003 :: "string \<Rightarrow> string" where
  "sanitize_003 codeBody =
     wrapBody_003 (replace_global rx_import_003 [] (stripExport_003 (trim codeBody)))"

section \<open>The compiler: transpiling and synthesising\<close>

text \<open>
  JavaScript throws any value. A thrown value is \<open>null\<close>, \<open>undefined\<close>, or a value with
  properties, of which the program reads \<open>name\<close> and \<open>message\<close>. The message is a text,
  as that of every \<open>Error\<close> is, or \<open>undefined\<close>, here \<open>None\<close>, as for a thrown text or
  number. Reading \<open>.message\<close> of \<open>null\<close> or \<open>undefined\<close> throws a \<open>TypeError\<close> in its
  turn (its wording is the engine's). An argument of \<open>console.error\<close> is a text or a
  thrown value.
\<close>

record js_error =
  name :: string
  message :: "string option"

datatype thrown = ThrownNull | ThrownUndefined | Thrown js_error

datatype js_arg = Str string | Err thrown

definition new_Error :: "string \<Rightarrow> thrown" where
  "new_Error msg = Thrown \<lparr>name = ''Error'', message = Some msg\<rparr>"

definition TypeError_reading_message :: "string \<Rightarrow> thrown" where
  "TypeError_reading_message of_what =
     Thrown \<lparr>name = ''TypeError'',
             message = Some (''Cannot read properties of '' @ of_what @ '' (reading 'message')'')\<rparr>"

definition read_message :: "thrown \<Rightarrow> thrown + string option" where
  \<comment> \<open>the expression \<open>err.message\<close>\<close>
  "read_message err =
     (case err of
        ThrownNull \<Rightarrow> Inl (TypeError_reading_message ''null'')
      | ThrownUndefined \<Rightarrow> Inl (TypeError_reading_message ''undefined'')
      | Thrown e \<Rightarrow> Inr (message e))"

definition nullish :: "thrown \<Rightarrow> bool" where
  "nullish err = (err = ThrownNull \<or> err = ThrownUndefined)"

definition or_else :: "string option \<Rightarrow> string \<Rightarrow> string" where
  \<comment> \<open>\<open>a || b\<close> on a text that may be \<open>undefined\<close> or empty\<close>
  "or_else a b = (case a of None \<Rightarrow> b | Some x \<Rightarrow> if x = [] then b else x)"

text \<open>
  What \<open>compileComponent\<close> does besides returning or throwing: the lines it writes with
  \<open>console.error\<close> and the texts it hands to \<open>Babel.transform\<close>, both in order.
\<close>

record effects =
  console_error :: "js_arg list list"
  transform_calls :: "string list"

definition rethrow :: "thrown \<Rightarrow> effects \<Rightarrow> (thrown + 'c) \<times> effects" where
  \<comment> \<open>the outer \<open>catch\<close>: log and throw the same value again\<close>
  "rethrow err fx =
     (Inl err, fx\<lparr>console_error := console_error fx @ [[Str ''Compilation Error:'', Err err]]\<rparr>)"

text \<open>
  \<open>compileComponent Babel createComponent codeBody\<close>, as in the latest version of the
  compiler. \<open>Babel\<close> is \<open>window.Babel\<close>: \<open>None\<close> when the script is not loaded, otherwise
  its \<open>transform\<close> under the options of the call, which throws or returns the lowered
  code. \<open>createComponent transformed returnStatement\<close> is the \<open>new Function\<close> with the two
  texts spliced into its body, called at once on the capabilities: it throws or returns
  the component. The result is \<open>Inl\<close> of the thrown value or \<open>Inr\<close> of the component.
\<close>

definition compileComponent ::
  "(string \<Rightarrow> thrown + string) option \<Rightarrow> (string \<Rightarrow> string \<Rightarrow> thrown + 'c) \<Rightarrow> string
     \<Rightarrow> (thrown + 'c) \<times> effects" where
  "compileComponent Babel createComponent codeBody =
     (case sanitize codeBody of (sourceCode, returnStatement) \<Rightarrow>
       (case Babel of
          None \<Rightarrow>
            rethrow (new_Error ''Babel not loaded. Please ensure Babel is included in index.html'')
              \<lparr>console_error = [], transform_calls = []\<rparr>
        | Some transform \<Rightarrow>
            (case transform sourceCode of
               Inl babelErr \<Rightarrow>
                 rethrow babelErr
                   \<lparr>console_error = [[Str ''Babel Transform Failed on:'', Str sourceCode]],
                    transform_calls = [sourceCode]\<rparr>
             | Inr transformed \<Rightarrow>
                 (case createComponent transformed returnStatement of
                    Inl err \<Rightarrow> rethrow err \<lparr>console_error = [], transform_calls = [sourceCode]\<rparr>
                  | Inr Component \<Rightarrow>
                      (Inr Component, \<lparr>console_error = [], transform_calls = [sourceCode]\<rparr>)))))"

text \<open>The version before it differs in the message of the missing transpiler.\<close>

definition compileComponent_002 ::
  "(string \<Rightarrow> thrown + string) option \<Rightarrow> (string \<Rightarrow> string \<Rightarrow> thrown + 'c) \<Rightarrow> string
     \<Rightarrow> (thrown + 'c) \<times> effects" where
  "compileComponent_002 Babel createComponent codeBody =
     (case sanitize codeBody of (sourceCode, returnStatement) \<Rightarrow>
       (case Babel of
          None \<Rightarrow> rethrow (new_Error ''Babel not loaded'') \<lparr>console_error = [], transform_calls = []\<rparr>
        | Some transform \<Rightarrow>
            (case transform sourceCode of
               Inl babelErr \<Rightarrow>
                 rethrow babelErr
                   \<lparr>console_error = [[Str ''Babel Transform Failed on:'', Str sourceCode]],
                    transform_calls = [sourceCode]\<rparr>
             | Inr transformed \<Rightarrow>
                 (case createComponent transformed returnStatement of
                    Inl err \<Rightarrow> rethrow err \<lparr>console_error = [], transform_calls = [sourceCode]\<rparr>
                  | Inr Component \<Rightarrow>
                      (Inr Component, \<lparr>console_error = [], transform_calls = [sourceCode]\<rparr>)))))"

text \<open>The earliest version has no \<open>catch\<close> of its own around the transform.\<close>

definition compileComponent_003 ::
  "(string \<Rightarrow> thrown + string) option \<Rightarrow> (string \<Rightarrow> string \<Rightarrow> thrown + 'c) \<Rightarrow> string
     \<Rightarrow> (thrown + 'c) \<times> effects" where
  "compileComponent_003 Babel createComponent codeBody =
     (let sourceCode = sanitize_003 codeBody in
       (case Babel of
          None \<Rightarrow> rethrow (new_Error ''Babel not loaded'') \<lparr>console_error = [], transform_calls = []\<rparr>
        | Some transform \<Rightarrow>
            (case transform sourceCode of
               Inl babelErr \<Rightarrow> rethrow babelErr \<lparr>console_error = [], transform_calls = [sourceCode]\<rparr>
             | Inr transformed \<Rightarrow>
                 (case createComponent transformed ''return DynamicComponent;'' of
                    Inl err \<Rightarrow> rethrow err \<lparr>console_error = [], transform_calls = [sourceCode]\<rparr>
                  | Inr Component \<Rightarrow>
                      (Inr Component, \<lparr>console_error = [], transform_calls = [sourceCode]\<rparr>)))))"

definition isSyntaxError :: "thrown \<Rightarrow> bool" where
  \<comment> \<open>the diagnostic of the transpiler for a text it cannot parse\<close>
  "isSyntaxError e = (case e of Thrown obj \<Rightarrow> name obj = ''SyntaxError'' | _ \<Rightarrow> False)"

section \<open>The scene: frame gate and error boundary\<close>

text \<open>
  A per-frame callback of compiled code receives the state of the renderer and the
  elapsed time and acts on the world \<open>'w\<close> of the component (its refs and reactive
  state). What the renderer keeps is a callback that also sees \<open>simSettings.current\<close>,
  the cell the scene rewrites at every render.
\<close>

record simSettings =
  paused :: bool

type_synonym ('s, 'd, 'w) frame_callback = "'s \<Rightarrow> 'd \<Rightarrow> 'w \<Rightarrow> 'w"

type_synonym ('s, 'd, 'w) subscriber = "simSettings \<Rightarrow> 's \<Rightarrow> 'd \<Rightarrow> 'w \<Rightarrow> 'w"

definition useFrame ::
  "('s, 'd, 'w) subscriber \<Rightarrow> ('s, 'd, 'w) subscriber list \<Rightarrow> ('s, 'd, 'w) subscriber list" where
  \<comment> \<open>the hook of the renderer: one more subscriber of the frame loop\<close>
  "useFrame cb subscribers = subscribers @ [cb]"

definition customUseFrame ::
  "('s, 'd, 'w) frame_callback \<Rightarrow> ('s, 'd, 'w) subscriber list \<Rightarrow> ('s, 'd, 'w) subscriber list" where
  "customUseFrame callback =
     useFrame (\<lambda>current state delta w. if paused current then w else callback state delta w)"

definition frame :: "simSettings \<Rightarrow> 's \<Rightarrow> 'd \<Rightarrow> ('s, 'd, 'w) subscriber list \<Rightarrow> 'w \<Rightarrow> 'w" where
  \<comment> \<open>one tick of the loop: every subscriber is called once\<close>
  "frame current state delta subscribers w = fold (\<lambda>cb. cb current state delta) subscribers w"

fun frames :: "nat \<Rightarrow> simSettings \<Rightarrow> 's \<Rightarrow> 'd \<Rightarrow> ('s, 'd, 'w) subscriber list \<Rightarrow> 'w \<Rightarrow> 'w" where
  "frames 0 current state delta subscribers w = w"
| "frames (Suc n) current state delta subscribers w =
     frames n current state delta subscribers (frame current state delta subscribers w)"

record ErrorBoundaryState =
  hasError :: bool
  error :: "string option"

datatype 'v view = Null | ErrorFallback "string option" | Children 'v

definition getDerivedStateFromError :: "thrown \<Rightarrow> thrown + ErrorBoundaryState" where
  \<comment> \<open>\<open>{ hasError: true, error: error.message }\<close>; \<open>Inl\<close> when the method itself throws\<close>
  "getDerivedStateFromError err =
     (case read_message err of
        Inl typeError \<Rightarrow> Inl typeError
      | Inr msg \<Rightarrow> Inr \<lparr>hasError = True, error = msg\<rparr>)"

definition ErrorBoundary_render :: "ErrorBoundaryState \<Rightarrow> 'v view \<Rightarrow> 'v view" where
  "ErrorBoundary_render st children = (if hasError st then ErrorFallback (error st) else children)"

text \<open>
  The mounted scene: what is on the screen, the state of the boundary, the calls of the
  \<open>onError\<close> property so far and the lines the program has written to the console. Nothing above the scene catches: when
  the scene or its boundary throws while React renders, there is no scene any more, and
  the result is \<open>Inl\<close> of the thrown value.

  The scene exists in two versions. They differ in the label under which the boundary
  logs and in the text that stands for the message of a failed compilation when the
  thrown value has none; \<open>mountScene\<close> takes the two texts, \<open>DynamicScene\<close> is the
  first version and \<open>DynamicScene_2\<close> the second.
\<close>

record 'v scene =
  shown :: "'v view"
  boundary :: ErrorBoundaryState
  onError_calls :: "string list"
  console :: "js_arg list list"

definition boundary_catch :: "string \<Rightarrow> thrown \<Rightarrow> 'v scene \<Rightarrow> thrown + 'v scene" where
  \<comment> \<open>React hands a value thrown below the boundary to \<open>getDerivedStateFromError\<close> and
      renders again, then calls \<open>componentDidCatch\<close>, which logs under \<open>label\<close>\<close>
  "boundary_catch label err sc =
     (case getDerivedStateFromError err of
        Inl typeError \<Rightarrow> Inl typeError
      | Inr st \<Rightarrow>
          Inr (sc\<lparr>shown := ErrorBoundary_render st (shown sc),
                 boundary := st,
                 console := console sc @ [[Str label, Err err]]\<rparr>))"

definition mountScene ::
  "string \<Rightarrow> string \<Rightarrow> (string \<Rightarrow> (thrown + 'c) \<times> effects) \<Rightarrow> ('c \<Rightarrow> thrown + 'v) \<Rightarrow> string
     \<Rightarrow> thrown + 'v scene" where
  \<comment> \<open>the first render for a \<open>code\<close>: \<open>compile\<close> is \<open>compileComponent\<close> with the frame
      gate as \<open>useFrame\<close> (a component it returns is a function, never \<open>null\<close>), \<open>render\<close>
      is the construction of the component by React\<close>
  "mountScene label defaultMessage compile render code =
     (case compile code of
        (Inl err, fx) \<Rightarrow>
          (case read_message err of
             Inl typeError \<Rightarrow> Inl typeError
           | Inr msg \<Rightarrow>
               Inr \<lparr>shown = Null, boundary = \<lparr>hasError = False, error = Some []\<rparr>,
                    onError_calls = [or_else msg defaultMessage],
                    console = console_error fx\<rparr>)
      | (Inr Component, fx) \<Rightarrow>
          (let mounted = \<lparr>shown = Null, boundary = \<lparr>hasError = False, error = Some []\<rparr>,
                          onError_calls = [], console = console_error fx\<rparr>
           in case render Component of
                Inr v \<Rightarrow> Inr (mounted\<lparr>shown := ErrorBoundary_render (boundary mounted) (Children v)\<rparr>)
              | Inl err \<Rightarrow> boundary_catch label err mounted))"

definition DynamicScene ::
  "(string \<Rightarrow> (thrown + 'c) \<times> effects) \<Rightarrow> ('c \<Rightarrow> thrown + 'v) \<Rightarrow> string \<Rightarrow> thrown + 'v scene" where
  "DynamicScene = mountScene ''Runtime Error in Dynamic Component:'' ''Failed to compile code''"

definition DynamicScene_2 ::
  "(string \<Rightarrow> (thrown + 'c) \<times> effects) \<Rightarrow> ('c \<Rightarrow> thrown + 'v) \<Rightarrow> string \<Rightarrow> thrown + 'v scene" where
  "DynamicScene_2 = mountScene ''Runtime Error:'' ''Compilation failed''"

section \<open>The generation service\<close>

record source_link =
  link_title :: string
  uri :: string

record SimulationResponse =
  componentCode :: string
  explanation :: string
  title :: string
  sources :: "source_link list option"

text \<open>
  The tables of the program (the two libraries, the custom simulations, the cache) are
  plain objects, and \<open>table[key]\<close> reads through the prototype: where the table has no
  entry of its own under \<open>key\<close>, the read gives what every object inherits under that
  name, a function or the prototype itself, and \<open>undefined\<close> only for other names. The
  inherited names are those of \<open>Object.prototype\<close> in ECMAScript (Annex B included);
  an inherited value is truthy and has none of the four properties of a response.
\<close>

definition Object_prototype_names :: "string list" where
  "Object_prototype_names =
     [''constructor'', ''hasOwnProperty'', ''isPrototypeOf'', ''propertyIsEnumerable'',
      ''toLocaleString'', ''toString'', ''valueOf'', ''__proto__'', ''__defineGetter__'',
      ''__defineSetter__'', ''__lookupGetter__'', ''__lookupSetter__'']"

datatype 'a property = Own 'a | Inherited string

definition get_property :: "'a option \<Rightarrow> string \<Rightarrow> 'a property option" where
  \<comment> \<open>\<open>table[key]\<close>, given the table's own entry under \<open>key\<close>; \<open>None\<close> is \<open>undefined\<close>\<close>
  "get_property own key =
     (case own of
        Some v \<Rightarrow> Some (Own v)
      | None \<Rightarrow> if key \<in> set Object_prototype_names then Some (Inherited key) else None)"

definition field_of :: "(SimulationResponse \<Rightarrow> 'b) \<Rightarrow> SimulationResponse property \<Rightarrow> 'b option" where
  \<comment> \<open>\<open>sim.componentCode\<close> and the like; \<open>None\<close> is \<open>undefined\<close>\<close>
  "field_of f sim = (case sim of Own r \<Rightarrow> Some (f r) | Inherited n \<Rightarrow> None)"

definition sources_of :: "SimulationResponse property \<Rightarrow> source_link list option" where
  \<comment> \<open>\<open>result.sources\<close>\<close>
  "sources_of sim = (case sim of Own r \<Rightarrow> sources r | Inherited n \<Rightarrow> None)"

text \<open>
  The three tests of \<open>validateSimulationCode\<close>. The first pattern is an alternation
  behind a literal; \<open>test\<close> asks for a match of any alternative at any position, which
  is a match of one of the five patterns without alternation.
\<close>

definition rx_scene_primitive :: "atom list list" where
  \<comment> \<open>\<open>/<(mesh|points|line|instancedMesh|drei\.)/i\<close>\<close>
  "rx_scene_primitive =
     map (\<lambda>w. lit_i (''<'' @ w)) [''mesh'', ''points'', ''line'', ''instancedMesh'', ''drei.'']"

definition rx_return_paren :: "atom list" where
  \<comment> \<open>\<open>/return\s*\(/i\<close>\<close>
  "rx_return_paren = lit_i ''return'' @ [Star isSpace] @ lit_i ''(''"

definition rx_group_tag :: "atom list" where
  \<comment> \<open>\<open>/<group/i\<close>\<close>
  "rx_group_tag = lit_i ''<group''"

definition validateSimulationCode :: "string \<Rightarrow> bool" where
  "validateSimulationCode code =
     (let hasMesh = list_ex (\<lambda>r. rx_test r code) rx_scene_primitive;
          hasReturn = rx_test rx_return_paren code;
          hasGroup = rx_test rx_group_tag code
      in hasMesh \<and> hasReturn \<and> hasGroup)"

text \<open>
  What the first test of the validation means on the text: \<open>prefix_ci w s\<close> says that
  \<open>s\<close> starts with \<open>w\<close> up to the case of letters, \<open>occurs_ci w s\<close> that \<open>w\<close> occurs in
  \<open>s\<close> so, and \<open>usesScenePrimitive\<close> that the text opens an element whose name starts
  with \<open>mesh\<close>, \<open>points\<close>, \<open>line\<close>, \<open>instancedMesh\<close> or \<open>drei.\<close>.
\<close>

fun prefix_ci :: "string \<Rightarrow> string \<Rightarrow> bool" where
  "prefix_ci [] s = True"
| "prefix_ci (a # w) [] = False"
| "prefix_ci (a # w) (c # cs) = (toLower c = toLower a \<and> prefix_ci w cs)"

fun occurs_ci :: "string \<Rightarrow> string \<Rightarrow> bool" where
  "occurs_ci w [] = (w = [])"
| "occurs_ci w (c # cs) = (prefix_ci w (c # cs) \<or> occurs_ci w cs)"

definition usesScenePrimitive :: "string \<Rightarrow> bool" where
  "usesScenePrimitive jsx =
     list_ex (\<lambda>w. occurs_ci (''<'' @ w) jsx)
       [''mesh'', ''points'', ''line'', ''instancedMesh'', ''drei.'']"

definition autoFix :: "string \<Rightarrow> string" where
  \<comment> \<open>the wrapper added when the text has no \<open>return (\<close>\<close>
  "autoFix code =
     (if \<not> str_includes code ''return ('' then ''return (<group>'' @ code @ ''</group>);'' else code)"

definition find_entry ::
  "(string \<times> SimulationResponse \<Rightarrow> bool) \<Rightarrow> (string \<times> SimulationResponse) list
     \<Rightarrow> SimulationResponse option" where
  \<comment> \<open>\<open>Object.keys(table).find(...)\<close>, the test \<open>if (key)\<close> on its result (not
      \<open>undefined\<close> and not the empty text) and then \<open>table[key]\<close>\<close>
  "find_entry P table =
     (case find P table of
        None \<Rightarrow> None
      | Some (key, sim) \<Rightarrow> if key = [] then None else Some sim)"

text \<open>
  The collaborators of \<open>generateSimulation\<close> are parameters: the two tables (objects
  in the order of their keys), the two calls of the model (each stands for
  \<open>ai.models.generateContent\<close> on the prompt built from its arguments, and returns the
  \<open>text\<close> of the response, \<open>None\<close> when there is none, or throws) and \<open>JSON.parse\<close> with
  the cast to the response type.
\<close>

record service =
  PERFECT_SIMULATIONS :: "(string \<times> SimulationResponse) list"
  INVISIBLE_SIMULATIONS :: "(string \<times> SimulationResponse) list"
  research :: "string \<Rightarrow> thrown + string option"
  generateCode :: "string \<Rightarrow> string \<Rightarrow> thrown + string option"
  JSON_parse :: "string \<Rightarrow> thrown + SimulationResponse"

type_synonym cache = "string \<rightharpoonup> SimulationResponse"

definition cache_valid :: "cache \<Rightarrow> bool" where
  \<comment> \<open>every cached response has passed the validation\<close>
  "cache_valid GENERATION_CACHE =
     (\<forall>key r. GENERATION_CACHE key = Some r \<longrightarrow> validateSimulationCode (componentCode r))"

definition shadowMatch :: "string \<Rightarrow> string \<times> SimulationResponse \<Rightarrow> bool" where
  "shadowMatch lowerPrompt entry =
     (case entry of (key, sim) \<Rightarrow>
        (let keyMatch = str_includes lowerPrompt key;
             titleMatch = str_includes (toLowerCase (title sim)) lowerPrompt
                            \<or> str_includes lowerPrompt (toLowerCase (title sim))
         in keyMatch \<or> titleMatch))"

definition generate_catch ::
  "thrown \<Rightarrow> cache
     \<Rightarrow> (thrown + SimulationResponse property) \<times> cache \<times> js_arg list list" where
  \<comment> \<open>the \<open>catch\<close> of the generation: log and throw the same value again\<close>
  "generate_catch err GENERATION_CACHE =
     (Inl err, GENERATION_CACHE, [[Str ''Gemini API Error:'', Err err]])"

text \<open>
  \<open>generateSimulation\<close> returns what the promise settles with (\<open>Inl\<close> when it rejects),
  the cache afterwards and the lines written to the console. The value it resolves
  with is a response, or, when the prompt is a name every object inherits, what the
  cache object inherits under that name.
\<close>

definition generateSimulation ::
  "service \<Rightarrow> cache \<Rightarrow> string
     \<Rightarrow> (thrown + SimulationResponse property) \<times> cache \<times> js_arg list list" where
  "generateSimulation svc GENERATION_CACHE userPrompt =
     (let lowerPrompt = trim (toLowerCase userPrompt) in
      case find_entry (\<lambda>(key, sim). str_includes lowerPrompt key) (PERFECT_SIMULATIONS svc) of
        Some sim \<Rightarrow>
          (Inr (Own (sim\<lparr>sources := Some [\<lparr>link_title = ''PhysiGen Library'', uri = ''#''\<rparr>]\<rparr>)),
           GENERATION_CACHE, [])
      | None \<Rightarrow>
      (case find_entry (shadowMatch lowerPrompt) (INVISIBLE_SIMULATIONS svc) of
        Some sim \<Rightarrow>
          (Inr (Own (sim\<lparr>sources :=
                  Some [\<lparr>link_title = ''PhysiGen Engine (Optimized)'', uri = ''#''\<rparr>]\<rparr>)),
           GENERATION_CACHE, [])
      | None \<Rightarrow>
      (case get_property (GENERATION_CACHE lowerPrompt) lowerPrompt of
        Some cached \<Rightarrow> (Inr cached, GENERATION_CACHE, [])
      | None \<Rightarrow>
      (case research svc userPrompt of
        Inl err \<Rightarrow> generate_catch err GENERATION_CACHE
      | Inr researchResponse \<Rightarrow>
      (case generateCode svc userPrompt (or_else researchResponse []) of
        Inl err \<Rightarrow> generate_catch err GENERATION_CACHE
      | Inr None \<Rightarrow> generate_catch (new_Error ''No response from Gemini'') GENERATION_CACHE
      | Inr (Some text) \<Rightarrow>
          if text = [] then generate_catch (new_Error ''No response from Gemini'') GENERATION_CACHE
          else
      (case JSON_parse svc text of
        Inl err \<Rightarrow> generate_catch err GENERATION_CACHE
      | Inr parsed \<Rightarrow>
          (let json = parsed\<lparr>componentCode := autoFix (componentCode parsed)\<rparr> in
           if \<not> validateSimulationCode (componentCode json) then
             generate_catch (new_Error ''Generated code missing 3D elements.'') GENERATION_CACHE
           else
             (let finalResult = json\<lparr>sources := Some []\<rparr> in
              (Inr (Own finalResult), GENERATION_CACHE(lowerPrompt \<mapsto> finalResult), [])))))))))"

section \<open>The application state\<close>

datatype SimulationStatus = IDLE | GENERATING | MODIFYING | EXPLAINING | COMPILING | READY | ERROR

text \<open>
  The current simulation. Each property is what the handler read from the value it
  installed, so it can be \<open>undefined\<close>, here \<open>None\<close>.
\<close>

record sim_data =
  code :: "string option"
  data_explanation :: "string option"
  data_title :: "string option"
  data_sources :: "source_link list option"

text \<open>
  The state of \<open>App\<close> that the handlers below touch. \<open>refreshKey\<close> is the key of the
  scene: the scene is mounted afresh when it changes. \<open>customSims\<close> is an object, kept in
  the order of its keys.
\<close>

record app =
  status :: SimulationStatus
  currentPrompt :: "string option"
  refreshKey :: nat
  data :: sim_data
  app_error :: "string option"
  customSims :: "(string \<times> SimulationResponse) list"

definition install :: "SimulationResponse property \<Rightarrow> source_link list option \<Rightarrow> sim_data" where
  \<comment> \<open>the object literal of the \<open>setData\<close> calls\<close>
  "install sim srcs =
     \<lparr>code = field_of componentCode sim, data_explanation = field_of explanation sim,
      data_title = field_of title sim, data_sources = srcs\<rparr>"

text \<open>
  An asynchronous handler is two functions: what it does up to its \<open>await\<close>, and what it
  does when the awaited promise has settled; the second receives what the first left in
  its closure. Other handlers may run in between.
\<close>

definition performGeneration_start :: "app \<Rightarrow> app" where
  "performGeneration_start s = s\<lparr>status := GENERATING\<rparr>"

definition performGeneration_settle :: "thrown + SimulationResponse property \<Rightarrow> app \<Rightarrow> app" where
  \<comment> \<open>when reading \<open>err.message\<close> throws inside the \<open>catch\<close>, the handler ends there\<close>
  "performGeneration_settle settled s =
     (case settled of
        Inr result \<Rightarrow>
          s\<lparr>data := install result (sources_of result), refreshKey := refreshKey s + 1,
            status := READY\<rparr>
      | Inl err \<Rightarrow>
          (case read_message err of
             Inl typeError \<Rightarrow> s
           | Inr msg \<Rightarrow>
               s\<lparr>app_error := Some (or_else msg ''Failed to generate simulation.''),
                 status := ERROR\<rparr>))"

definition lookupSim ::
  "(string \<times> SimulationResponse) list \<Rightarrow> app \<Rightarrow> string \<Rightarrow> SimulationResponse property option" where
  \<comment> \<open>\<open>customSims[key] || PERFECT_SIMULATIONS[key]\<close>\<close>
  "lookupSim library s key =
     (case get_property (map_of (customSims s) key) key of
        Some sim \<Rightarrow> Some sim
      | None \<Rightarrow> get_property (map_of library key) key)"

definition handlePresetClick_start ::
  "(string \<times> SimulationResponse) list \<Rightarrow> string \<Rightarrow> app
     \<Rightarrow> app \<times> SimulationResponse property option" where
  \<comment> \<open>the second component is the \<open>sim\<close> the handler waits with, \<open>None\<close> when it has returned\<close>
  "handlePresetClick_start library key s =
     (let s1 = s\<lparr>status := GENERATING, app_error := None\<rparr> in
      case lookupSim library s1 key of
        None \<Rightarrow> (s1\<lparr>status := ERROR\<rparr>, None)
      | Some sim \<Rightarrow> (s1\<lparr>currentPrompt := field_of title sim\<rparr>, Some sim))"

definition handlePresetClick_settle :: "SimulationResponse property \<Rightarrow> app \<Rightarrow> app" where
  "handlePresetClick_settle sim s =
     s\<lparr>data := install sim (case sources_of sim of None \<Rightarrow> Some [] | Some l \<Rightarrow> Some l),
       refreshKey := refreshKey s + 1, status := READY\<rparr>"

definition handleReset :: "(string \<times> SimulationResponse) list \<Rightarrow> app \<Rightarrow> app" where
  "handleReset library s =
     (let sameTitle = (\<lambda>(key, sim). Some (title sim) = data_title (data s));
          sim = (case find_entry sameTitle (customSims s) of
                   Some sim \<Rightarrow> Some sim
                 | None \<Rightarrow> find_entry sameTitle library);
          s1 = (case sim of None \<Rightarrow> s | Some sim \<Rightarrow> s\<lparr>data := install (Own sim) (Some [])\<rparr>)
      in s1\<lparr>refreshKey := refreshKey s1 + 1\<rparr>)"

definition handleRuntimeError :: "string \<Rightarrow> app \<Rightarrow> app" where
  \<comment> \<open>what the page passes to the scene as \<open>onError\<close>\<close>
  "handleRuntimeError msg s = s\<lparr>app_error := Some (''Runtime Error: '' @ msg)\<rparr>"

definition App_initial :: "string \<Rightarrow> string \<Rightarrow> app" where
  \<comment> \<open>the state at the start of a session, for the two initial texts\<close>
  "App_initial INITIAL_CODE INITIAL_EXPLANATION =
     \<lparr>status = IDLE, currentPrompt = Some [], refreshKey = 0,
      data = \<lparr>code = Some INITIAL_CODE, data_explanation = Some INITIAL_EXPLANATION,
              data_title = Some ''PhysiGen AI'', data_sources = Some []\<rparr>,
      app_error = None, customSims = []\<rparr>"

text \<open>
  The controls of the page call the handlers: the prompt bar and the buttons of the
  library are enabled only while the status is \<open>READY\<close> or \<open>IDLE\<close>, and the prompt bar
  submits no blank text; the reset button is always enabled. A run of the page is a
  list of such events. \<open>Submit prompt\<close> stands for a prompt that
  \<open>handleSimulationRequest\<close> routes to the generation (neither a question nor a
  modification); \<open>GenerationSettled\<close> and \<open>PresetSettled\<close> are the moments at which the
  promise a handler waits for settles, with what the handler then has at hand.
\<close>

datatype event =
    Submit string
  | GenerationSettled "thrown + SimulationResponse property"
  | PresetClick string
  | PresetSettled "SimulationResponse property"
  | Reset

definition controls_enabled :: "app \<Rightarrow> bool" where
  "controls_enabled s = (status s = READY \<or> status s = IDLE)"

definition step :: "(string \<times> SimulationResponse) list \<Rightarrow> event \<Rightarrow> app \<Rightarrow> app" where
  "step library ev s =
     (case ev of
        Submit prompt \<Rightarrow>
          if controls_enabled s \<and> trim prompt \<noteq> []
          then performGeneration_start (s\<lparr>app_error := None, currentPrompt := Some prompt\<rparr>)
          else s
      | GenerationSettled settled \<Rightarrow> performGeneration_settle settled s
      | PresetClick key \<Rightarrow> if controls_enabled s then fst (handlePresetClick_start library key s) else s
      | PresetSettled sim \<Rightarrow> handlePresetClick_settle sim s
      | Reset \<Rightarrow> handleReset library s)"

definition run :: "(string \<times> SimulationResponse) list \<Rightarrow> event list \<Rightarrow> app \<Rightarrow> app" where
  "run library evs s = fold (step library) evs s"

text \<open>Sample data for the concrete runs below.\<close>

definition pendulum_sim :: SimulationResponse where
  "pendulum_sim =
     \<lparr>componentCode = ''return (<group><points /></group>);'', explanation = ''# Pendulum'',
      title = ''Double Pendulum'', sources = None\<rparr>"

definition comet_sim :: SimulationResponse where
  "comet_sim =
     \<lparr>componentCode = ''return (<group><mesh /></group>);'', explanation = ''# Comet'',
      title = ''Comet'', sources = Some []\<rparr>"

definition quoted :: "string \<Rightarrow> string" where
  "quoted s = CHR 0x22 # s @ [CHR 0x22]"

definition response_json :: "string \<Rightarrow> string \<Rightarrow> string \<Rightarrow> string" where
  \<comment> \<open>the JSON text of a response; the three texts need no escapes\<close>
  "response_json t c e =
     ''{'' @ quoted ''title'' @ '':'' @ quoted t @ '','' @ quoted ''componentCode'' @ '':'' @ quoted c
       @ '','' @ quoted ''explanation'' @ '':'' @ quoted e @ ''}''"

definition example_service :: service where
  \<comment> \<open>a model that answers one prompt with a light only, one with a bare mesh and one
      with a material in a group, and a \<open>JSON.parse\<close> on those three answers\<close>
  "example_service =
     \<lparr>PERFECT_SIMULATIONS = [(''double pendulum'', pendulum_sim)],
      INVISIBLE_SIMULATIONS = [],
      research = (\<lambda>userPrompt. Inr (Some ''g = 9.8'')),
      generateCode = (\<lambda>userPrompt researchText.
        if userPrompt = ''a cube'' then Inr (Some (response_json ''Cube'' ''<mesh />'' ''# Cube''))
        else if userPrompt = ''a material'' then
          Inr (Some (response_json ''Material''
                 ''return (<group><meshStandardMaterial /></group>);'' ''# Material''))
        else Inr (Some (response_json ''Falling Apple'' ''<ambientLight />'' ''# Apple''))),
      JSON_parse = (\<lambda>text.
        if text = response_json ''Cube'' ''<mesh />'' ''# Cube'' then
          Inr \<lparr>componentCode = ''<mesh />'', explanation = ''# Cube'', title = ''Cube'',
               sources = None\<rparr>
        else if text = response_json ''Material''
                 ''return (<group><meshStandardMaterial /></group>);'' ''# Material'' then
          Inr \<lparr>componentCode = ''return (<group><meshStandardMaterial /></group>);'',
               explanation = ''# Material'', title = ''Material'', sources = None\<rparr>
        else if text = response_json ''Falling Apple'' ''<ambientLight />'' ''# Apple'' then
          Inr \<lparr>componentCode = ''<ambientLight />'', explanation = ''# Apple'',
               title = ''Falling Apple'', sources = None\<rparr>
        else Inl (Thrown \<lparr>name = ''SyntaxError'', message = Some ''Unexpected token''\<rparr>))\<rparr>"

section \<open>Properties of the pattern matcher\<close>

text \<open>
  A successful match has one length for each atom. A match of a pattern that starts
  with a literal, a starred class or a plus starts with a text of that shape, and the
  rest of the pattern matches what follows. A search finds a place where the pattern
  matches, and where a pattern matches, so does each of its prefixes.
\<close>

lemma rx_match_length: "rx_match r prev s = Some ns \<Longrightarrow> length ns = length r"
proof (induction r prev s arbitrary: ns rule: rx_match.induct)
  case (5 p r prev c cs)
  show ?case
  proof (cases "if p c then map_option one_more (rx_match (Star p # r) (Some c) cs) else None")
    case None
    with 5 show ?thesis by auto
  next
    case (Some ms)
    then obtain ms0 where "p c" "rx_match (Star p # r) (Some c) cs = Some ms0" "ms = one_more ms0"
      by (auto split: if_splits)
    with 5 Some show ?thesis by (cases ms0) auto
  qed
next
  case (7 p r prev c cs)
  show ?case
  proof (cases "rx_match r prev (c # cs)")
    case (Some ms)
    with 7 show ?thesis by auto
  next
    case None
    with 7 obtain ms0 where "p c" "rx_match (Lazy p # r) (Some c) cs = Some ms0" "ns = one_more ms0"
      by (auto split: if_splits)
    with 7 None show ?thesis by (cases ms0) auto
  qed
next
  case (9 p r prev c cs)
  then show ?case by (auto split: if_splits option.splits)
qed (auto split: if_splits)

lemma sum_list_more: "ns \<noteq> [] \<Longrightarrow> sum_list (one_more ns) = Suc (sum_list ns)"
  by (cases ns) simp_all

lemma rx_match_lit:
  "rx_match (lit w @ r) prev s = Some ns \<Longrightarrow>
     \<exists>s' prev' ns'. s = w @ s' \<and> rx_match r prev' s' = Some ns' \<and> sum_list ns = length w + sum_list ns'"
proof (induction w arbitrary: prev s ns)
  case Nil
  then show ?case by (auto simp: lit_def)
next
  case (Cons a w)
  from Cons.prems obtain cs ns1 where s: "s = a # cs" and m: "rx_match (lit w @ r) (Some a) cs = Some ns1"
    and ns: "ns = 1 # ns1"
    by (cases s) (auto simp: lit_def split: if_splits)
  from Cons.IH [OF m] obtain s' prev' ns' where "cs = w @ s'" "rx_match r prev' s' = Some ns'"
    "sum_list ns1 = length w + sum_list ns'" by blast
  with s ns show ?case by auto
qed

lemma rx_match_Star:
  "rx_match (Star p # r) prev s = Some ns \<Longrightarrow>
     \<exists>ws s' prev' ns'. s = ws @ s' \<and> list_all p ws \<and> rx_match r prev' s' = Some ns'
        \<and> sum_list ns = length ws + sum_list ns'"
proof (induction s arbitrary: prev ns)
  case Nil
  then have "\<exists>ns'. rx_match r prev [] = Some ns' \<and> ns = 0 # ns'" by auto
  then show ?case by fastforce
next
  case (Cons c cs)
  show ?case
  proof (cases "if p c then map_option one_more (rx_match (Star p # r) (Some c) cs) else None")
    case None
    with Cons.prems obtain ns' where "rx_match r prev (c # cs) = Some ns'" "ns = 0 # ns'" by auto
    then have "c # cs = [] @ (c # cs) \<and> list_all p [] \<and> rx_match r prev (c # cs) = Some ns'
        \<and> sum_list ns = length ([] :: string) + sum_list ns'" by simp
    then show ?thesis by blast
  next
    case (Some ms)
    then obtain ms0 where pc: "p c" and m: "rx_match (Star p # r) (Some c) cs = Some ms0"
      and ms: "ms = one_more ms0"
      by (auto split: if_splits)
    from Cons.prems Some have ns: "ns = ms" by simp
    from rx_match_length [OF m] have "ms0 \<noteq> []" by auto
    then have sum: "sum_list ns = Suc (sum_list ms0)" using ns ms by (simp add: sum_list_more)
    from Cons.IH [OF m] obtain ws s' prev' ns' where "cs = ws @ s'" "list_all p ws"
      "rx_match r prev' s' = Some ns'" "sum_list ms0 = length ws + sum_list ns'" by blast
    with pc sum have "c # cs = (c # ws) @ s' \<and> list_all p (c # ws) \<and> rx_match r prev' s' = Some ns'
        \<and> sum_list ns = length (c # ws) + sum_list ns'" by simp
    then show ?thesis by blast
  qed
qed

lemma rx_match_plus:
  assumes "rx_match (plus p @ r) prev s = Some ns"
  shows "\<exists>ws s' prev' ns'. s = ws @ s' \<and> ws \<noteq> [] \<and> list_all p ws \<and> rx_match r prev' s' = Some ns'
        \<and> sum_list ns = length ws + sum_list ns'"
proof -
  from assms obtain c cs ns1 where s: "s = c # cs" and pc: "p c"
    and m: "rx_match (Star p # r) (Some c) cs = Some ns1" and ns: "ns = 1 # ns1"
    by (cases s) (auto simp: plus_def split: if_splits)
  from rx_match_Star [OF m] obtain ws s' prev' ns' where "cs = ws @ s'" "list_all p ws"
      "rx_match r prev' s' = Some ns'" "sum_list ns1 = length ws + sum_list ns'" by blast
  with s pc ns have "s = (c # ws) @ s' \<and> c # ws \<noteq> [] \<and> list_all p (c # ws)
      \<and> rx_match r prev' s' = Some ns' \<and> sum_list ns = length (c # ws) + sum_list ns'" by simp
  then show ?thesis by blast
qed

lemma rx_search_match:
  "rx_search r prev s = Some (i, ns) \<Longrightarrow> \<exists>prev'. rx_match r prev' (drop i s) = Some ns"
proof (induction s arbitrary: prev i)
  case Nil
  then show ?case by auto
next
  case (Cons c cs)
  show ?case
  proof (cases "rx_match r prev (c # cs)")
    case (Some ms)
    with Cons.prems show ?thesis by auto
  next
    case None
    with Cons.prems obtain j where "rx_search r (Some c) cs = Some (j, ns)" "i = Suc j" by auto
    with Cons.IH show ?thesis by auto
  qed
qed

lemma rx_match_prefix:
  "rx_match (r1 @ r2) prev s = Some ns \<Longrightarrow> rx_match r1 prev s \<noteq> None"
proof (induction r1 prev s arbitrary: ns rule: rx_match.induct)
  case (5 p r prev c cs)
  show ?case
  proof (cases "if p c then map_option one_more (rx_match (Star p # r) (Some c) cs) else None")
    case (Some ms)
    then show ?thesis by simp
  next
    case None
    have "\<not> (p c \<and> rx_match (Star p # r @ r2) (Some c) cs \<noteq> None)"
    proof
      assume a: "p c \<and> rx_match (Star p # r @ r2) (Some c) cs \<noteq> None"
      then obtain ms where "rx_match ((Star p # r) @ r2) (Some c) cs = Some ms" by auto
      with a 5(1) have "rx_match (Star p # r) (Some c) cs \<noteq> None" by blast
      with a None show False by auto
    qed
    with "5.prems" obtain ms where "rx_match (r @ r2) prev (c # cs) = Some ms"
      by (auto split: if_splits option.splits)
    with 5(2) [OF None] have "rx_match r prev (c # cs) \<noteq> None" by blast
    with None show ?thesis by auto
  qed
next
  case (7 p r prev c cs)
  show ?case
  proof (cases "rx_match r prev (c # cs)")
    case (Some ms)
    then show ?thesis by simp
  next
    case None
    have "rx_match (r @ r2) prev (c # cs) = None"
    proof (rule ccontr)
      assume "rx_match (r @ r2) prev (c # cs) \<noteq> None"
      then obtain ms where "rx_match (r @ r2) prev (c # cs) = Some ms" by auto
      with 7(1) have "rx_match r prev (c # cs) \<noteq> None" by blast
      with None show False by simp
    qed
    with "7.prems" obtain ms where pc: "p c" and "rx_match ((Lazy p # r) @ r2) (Some c) cs = Some ms"
      by (auto split: if_splits)
    with 7(2) [OF None] have "rx_match (Lazy p # r) (Some c) cs \<noteq> None" by blast
    with None pc show ?thesis by auto
  qed
next
  case (9 p r prev c cs)
  show ?case
  proof (cases "if p c then map_option (Cons 1) (rx_match r (Some c) cs) else None")
    case (Some ms)
    then show ?thesis by simp
  next
    case None
    have "\<not> (p c \<and> rx_match (r @ r2) (Some c) cs \<noteq> None)"
    proof
      assume a: "p c \<and> rx_match (r @ r2) (Some c) cs \<noteq> None"
      then obtain ms where "rx_match (r @ r2) (Some c) cs = Some ms" by auto
      with a 9(1) have "rx_match r (Some c) cs \<noteq> None" by blast
      with a None show False by auto
    qed
    with "9.prems" obtain ms where "rx_match (r @ r2) prev (c # cs) = Some ms"
      by (auto split: if_splits option.splits)
    with 9(2) [OF None] have "rx_match r prev (c # cs) \<noteq> None" by blast
    with None show ?thesis by auto
  qed
qed (auto split: if_splits)

lemma rx_search_prefix:
  "rx_search (r1 @ r2) prev s \<noteq> None \<Longrightarrow> rx_search r1 prev s \<noteq> None"
proof (induction s arbitrary: prev)
  case Nil
  then show ?case using rx_match_prefix [of r1 r2 prev "[]"] by auto
next
  case (Cons c cs)
  show ?case
  proof (cases "rx_match (r1 @ r2) prev (c # cs)")
    case (Some ms)
    from rx_match_prefix [OF Some] show ?thesis by auto
  next
    case None
    with Cons.prems have "rx_search (r1 @ r2) (Some c) cs \<noteq> None" by auto
    with Cons.IH have "rx_search r1 (Some c) cs \<noteq> None" by blast
    then show ?thesis by (auto split: option.splits)
  qed
qed

section \<open>Properties of the sanitiser\<close>

lemmas pattern_defs =
  rx_import_statement_def rx_import_line_def rx_export_default_def
  rx_export_default_function_name_def rx_export_default_name_def
  rx_export_default_function_def rx_export_default_name_semi_def
  rx_export_header_003_def rx_last_brace_003_def rx_import_003_def
  lit_def lit_i_def plus_def

lemmas class_defs =
  isSpace_def isWord_def isLineTerminator_def anyChar_def dot_def

lemmas sanitize_defs =
  sanitize_def compilationStrategy_def removeImports_def wrapBody_def
  sanitize_003_def stripExport_003_def wrapBody_003_def
  replace_global_def replace_first_def rx_test_def rx_group_def trim_def

text \<open>
  C4. The four literal shapes of the classification table. A bare body is wrapped as
  the body of a function bound to \<open>DynamicComponent\<close>, which is what the trailing
  statement returns; an exported named function loses \<open>export default\<close> and its name
  \<open>Foo\<close> is returned; an exported identifier loses the whole export statement and
  \<open>Foo\<close> is returned; an exported anonymous expression is bound to \<open>DynamicComponent\<close>,
  which is returned.
\<close>

theorem C4_shape_classification:
  "sanitize ''return <a/>;'' =
     (''\<newline>        const DynamicComponent = (props) => {\<newline>          return <a/>;\<newline>        };\<newline>      '',
      ''return DynamicComponent;'')
   \<and> sanitize ''export default function Foo(){...}'' = (''function Foo(){...}'', ''return Foo;'')
   \<and> sanitize ''const Foo = () => <a/>;\<newline>export default Foo;'' =
       (''const Foo = () => <a/>;\<newline>'', ''return Foo;'')
   \<and> sanitize ''export default () => <a/>;'' =
       (''const DynamicComponent = () => <a/>;'', ''return DynamicComponent;'')"
proof (intro conjI)
  show "sanitize ''return <a/>;'' =
     (''\<newline>        const DynamicComponent = (props) => {\<newline>          return <a/>;\<newline>        };\<newline>      '',
      ''return DynamicComponent;'')"
    by (simp add: sanitize_defs pattern_defs class_defs)
  show "sanitize ''export default function Foo(){...}'' = (''function Foo(){...}'', ''return Foo;'')"
    by (simp add: sanitize_defs pattern_defs class_defs)
  show "sanitize ''const Foo = () => <a/>;\<newline>export default Foo;'' =
       (''const Foo = () => <a/>;\<newline>'', ''return Foo;'')"
    by (simp add: sanitize_defs pattern_defs class_defs)
  show "sanitize ''export default () => <a/>;'' =
       (''const DynamicComponent = () => <a/>;'', ''return DynamicComponent;'')"
    by (simp add: sanitize_defs pattern_defs class_defs)
qed

text \<open>
  The later versions of the compiler strip the export structurally, on every text in
  which they find an exported named function: the output is the text with the first
  \<open>export default function\<close> replaced by \<open>function\<close>. All that follows the keyword
  (the name, the parameters, the body and every declaration after it) and all that
  precedes the export is in the output as it was.
\<close>

lemma export_keyword_shape:
  assumes "rx_match rx_export_default_function prev s = Some ns"
  shows "\<exists>w1 w2 rest. s = ''export'' @ w1 @ ''default'' @ w2 @ ''function'' @ rest
           \<and> w1 \<noteq> [] \<and> list_all isSpace w1 \<and> w2 \<noteq> [] \<and> list_all isSpace w2
           \<and> drop (sum_list ns) s = rest"
proof -
  from assms have "rx_match (lit ''export'' @ plus isSpace @ lit ''default'' @ plus isSpace
      @ lit ''function'' @ []) prev s = Some ns"
    by (simp add: rx_export_default_function_def)
  from rx_match_lit [OF this] obtain s1 p1 n1 where 1: "s = ''export'' @ s1"
    "rx_match (plus isSpace @ lit ''default'' @ plus isSpace @ lit ''function'' @ []) p1 s1 = Some n1"
    "sum_list ns = length ''export'' + sum_list n1" by blast
  from rx_match_plus [OF 1(2)] obtain w1 s2 p2 n2 where 2: "s1 = w1 @ s2" "w1 \<noteq> []" "list_all isSpace w1"
    "rx_match (lit ''default'' @ plus isSpace @ lit ''function'' @ []) p2 s2 = Some n2"
    "sum_list n1 = length w1 + sum_list n2" by blast
  from rx_match_lit [OF 2(4)] obtain s3 p3 n3 where 3: "s2 = ''default'' @ s3"
    "rx_match (plus isSpace @ lit ''function'' @ []) p3 s3 = Some n3"
    "sum_list n2 = length ''default'' + sum_list n3" by blast
  from rx_match_plus [OF 3(2)] obtain w2 s4 p4 n4 where 4: "s3 = w2 @ s4" "w2 \<noteq> []" "list_all isSpace w2"
    "rx_match (lit ''function'' @ []) p4 s4 = Some n4"
    "sum_list n3 = length w2 + sum_list n4" by blast
  from rx_match_lit [OF 4(4)] obtain s5 p5 n5 where 5: "s4 = ''function'' @ s5"
    "rx_match [] p5 s5 = Some n5"
    "sum_list n4 = length ''function'' + sum_list n5" by blast
  from 5(2) have n5: "n5 = []" by simp
  define kw where "kw = ''export'' @ w1 @ ''default'' @ w2 @ ''function''"
  have s: "s = ''export'' @ w1 @ ''default'' @ w2 @ ''function'' @ s5"
    using 1(1) 2(1) 3(1) 4(1) 5(1) by simp
  then have skw: "s = kw @ s5"
    by (simp add: kw_def)
  have "sum_list ns = length kw"
    using 1(3) 2(5) 3(3) 4(5) 5(3) n5 by (simp add: kw_def)
  with skw have "drop (sum_list ns) s = s5"
    by simp
  with s 2(2,3) 4(2,3) show ?thesis by blast
qed

lemma export_strip_structural:
  assumes "rx_search rx_export_default_function_name None cleanBody \<noteq> None"
  shows "\<exists>pre w1 w2 rest.
           cleanBody = pre @ ''export'' @ w1 @ ''default'' @ w2 @ ''function'' @ rest
           \<and> w1 \<noteq> [] \<and> list_all isSpace w1 \<and> w2 \<noteq> [] \<and> list_all isSpace w2
           \<and> fst (compilationStrategy cleanBody) = pre @ ''function'' @ rest"
proof -
  have name1: "rx_export_default_function_name
                 = rx_export_default @ (lit ''function'' @ plus isSpace @ plus isWord)"
    by (simp add: rx_export_default_function_name_def rx_export_default_def)
  have name2: "rx_export_default_function_name
                 = rx_export_default_function @ (plus isSpace @ plus isWord)"
    by (simp add: rx_export_default_function_name_def rx_export_default_function_def)
  from assms have t: "rx_test rx_export_default cleanBody"
    unfolding rx_test_def name1 by (rule rx_search_prefix)
  from assms have "rx_search rx_export_default_function None cleanBody \<noteq> None"
    unfolding name2 by (rule rx_search_prefix)
  then obtain i ns where f: "rx_search rx_export_default_function None cleanBody = Some (i, ns)"
    by auto
  from assms obtain funcMatch where
    m: "rx_search rx_export_default_function_name None cleanBody = Some funcMatch"
    by auto
  have out: "fst (compilationStrategy cleanBody)
               = take i cleanBody @ ''function'' @ drop (i + sum_list ns) cleanBody"
    by (simp add: compilationStrategy_def t m replace_first_def f)
  from rx_search_match [OF f] obtain prev' where
    "rx_match rx_export_default_function prev' (drop i cleanBody) = Some ns" by blast
  from export_keyword_shape [OF this] obtain w1 w2 rest where
    k: "drop i cleanBody = ''export'' @ w1 @ ''default'' @ w2 @ ''function'' @ rest"
    "w1 \<noteq> []" "list_all isSpace w1" "w2 \<noteq> []" "list_all isSpace w2"
    "drop (sum_list ns) (drop i cleanBody) = rest" by blast
  have "cleanBody = take i cleanBody @ drop i cleanBody" by simp
  with k(1) have c: "cleanBody = take i cleanBody @ ''export'' @ w1 @ ''default'' @ w2 @ ''function'' @ rest"
    by simp
  from k(6) have "drop (i + sum_list ns) cleanBody = rest" by (simp add: add.commute)
  with out have "fst (compilationStrategy cleanBody) = take i cleanBody @ ''function'' @ rest" by simp
  with c k(2-5) show ?thesis by blast
qed

text \<open>
  C2. The earliest \<open>compileComponent\<close> removes the header of the exported function and
  then the last closing brace of the text. On a module with a helper after the exported
  function that brace is the helper's: the helper is no longer in the output, and the
  brace that closed the exported function is still there. The later versions keep the
  helper on the same input; \<open>export_strip_structural\<close> says as much of their export
  step on every text (what their import removal has removed before that step is
  another matter).
\<close>

theorem C2_last_brace_removed:
  "stripExport_003
     ''export default function App() { return <mesh/>; }\<newline>function helper() { return 1; }''
     = '' return <mesh/>; }\<newline>function helper() { return 1; ''
   \<and> \<not> str_includes
         (sanitize_003
            ''export default function App() { return <mesh/>; }\<newline>function helper() { return 1; }'')
         ''function helper() { return 1; }''
   \<and> fst (sanitize
            ''export default function App() { return <mesh/>; }\<newline>function helper() { return 1; }'')
       = ''function App() { return <mesh/>; }\<newline>function helper() { return 1; }''"
proof (intro conjI)
  show "stripExport_003
     ''export default function App() { return <mesh/>; }\<newline>function helper() { return 1; }''
     = '' return <mesh/>; }\<newline>function helper() { return 1; ''"
    by (simp add: sanitize_defs pattern_defs class_defs)
  then show "\<not> str_includes
         (sanitize_003
            ''export default function App() { return <mesh/>; }\<newline>function helper() { return 1; }'')
         ''function helper() { return 1; }''"
    by (simp add: sanitize_003_def wrapBody_003_def trim_def replace_global_def
        rx_import_003_def lit_def plus_def class_defs)
  show "fst (sanitize
            ''export default function App() { return <mesh/>; }\<newline>function helper() { return 1; }'')
       = ''function App() { return <mesh/>; }\<newline>function helper() { return 1; }''"
    by (simp add: sanitize_defs pattern_defs class_defs)
qed

text \<open>
  What the import removal does keep: a text that does not contain \<open>import\<close> at all
  comes out as it went in.
\<close>

lemma str_includes_append: "str_includes (pre @ t @ suf) t"
proof (induction pre)
  case Nil
  have "prefix t (t @ suf)" by simp
  then show ?case by (cases "t @ suf") auto
next
  case (Cons c pre)
  then show ?case by simp
qed

lemma str_includes_Cons: "str_includes cs t \<Longrightarrow> str_includes (c # cs) t"
  by simp

lemma import_match_mentions:
  assumes "rx_match ([Bol, Star isSpace] @ lit ''import'' @ r) prev s = Some ns"
  shows "str_includes s ''import''"
proof -
  from assms obtain n1 where "rx_match (Star isSpace # lit ''import'' @ r) prev s = Some n1"
    by (auto split: if_splits)
  from rx_match_Star [OF this] obtain ws s' prev' ns' where s: "s = ws @ s'"
    and m: "rx_match (lit ''import'' @ r) prev' s' = Some ns'" by blast
  from rx_match_lit [OF m] obtain s'' where "s' = ''import'' @ s''" by blast
  with s have "s = ws @ ''import'' @ s''" by simp
  then show ?thesis by (simp only: str_includes_append)
qed

lemma replace_all_no_match:
  assumes "\<And>prev t ns. rx_match r prev t = Some ns \<Longrightarrow> str_includes t w" and "w \<noteq> []"
  shows "\<not> str_includes s w \<Longrightarrow> replace_all r repl 0 prev s = s"
proof (induction s arbitrary: prev)
  case Nil
  have "rx_match r prev [] = None"
  proof (cases "rx_match r prev []")
    case (Some ns)
    from assms(1) [OF Some] assms(2) show ?thesis by simp
  qed simp
  then show ?case by simp
next
  case (Cons c cs)
  have "rx_match r prev (c # cs) = None"
  proof (cases "rx_match r prev (c # cs)")
    case (Some ns)
    from assms(1) [OF Some] Cons.prems show ?thesis by simp
  qed simp
  moreover from Cons.prems have "\<not> str_includes cs w" by auto
  ultimately show ?case using Cons.IH by simp
qed

lemma removeImports_without_import:
  assumes "\<not> str_includes cleanBody ''import''"
  shows "removeImports cleanBody = cleanBody"
proof -
  have 1: "replace_global rx_import_statement [] cleanBody = cleanBody"
    unfolding replace_global_def
  proof (rule replace_all_no_match [where w = "''import''"])
    fix prev t ns
    assume "rx_match rx_import_statement prev t = Some ns"
    then have "rx_match ([Bol, Star isSpace] @ lit ''import''
        @ (plus isSpace @ [Lazy anyChar] @ lit '';'' @ [Star isSpace, Eol])) prev t = Some ns"
      by (simp add: rx_import_statement_def)
    then show "str_includes t ''import''" by (rule import_match_mentions)
  qed (use assms in simp_all)
  have 2: "replace_global rx_import_line [] cleanBody = cleanBody"
    unfolding replace_global_def
  proof (rule replace_all_no_match [where w = "''import''"])
    fix prev t ns
    assume "rx_match rx_import_line prev t = Some ns"
    then have "rx_match ([Bol, Star isSpace] @ lit ''import''
        @ (plus isSpace @ [Star dot, Eol])) prev t = Some ns"
      by (simp add: rx_import_line_def)
    then show "str_includes t ''import''" by (rule import_match_mentions)
  qed (use assms in simp_all)
  show ?thesis by (simp add: removeImports_def 1 2)
qed

text \<open>
  C6. An import without its semicolon, followed by a declaration: the first pattern
  of the import removal starts at \<open>import\<close> and runs, across the end of the line, to
  the first semicolon that ends a line. The declaration \<open>const speed = 2;\<close> is not an
  import line, and it is removed with the import.
\<close>

theorem C6_declaration_removed_with_import:
  "removeImports ''import React from 'react'\<newline>const speed = 2;\<newline>return <mesh/>;''
     = ''\<newline>return <mesh/>;''"
  by (simp add: sanitize_defs pattern_defs class_defs)

section \<open>Properties of the transpiler adapter\<close>

text \<open>
  C7. Without the transpiler, \<open>compileComponent\<close> throws an \<open>Error\<close> with a fixed
  message of its own, whatever the submitted text is, and \<open>Babel.transform\<close> has not
  been called. The value differs from every syntax error the transpiler throws. Both
  later versions of the compiler behave so; they differ in the message.
\<close>

theorem C7_transpiler_unavailable:
  "compileComponent None createComponent codeBody =
     (Inl (new_Error ''Babel not loaded. Please ensure Babel is included in index.html''),
      \<lparr>console_error = [[Str ''Compilation Error:'',
           Err (new_Error ''Babel not loaded. Please ensure Babel is included in index.html'')]],
       transform_calls = []\<rparr>)
   \<and> compileComponent_002 None createComponent codeBody =
     (Inl (new_Error ''Babel not loaded''),
      \<lparr>console_error = [[Str ''Compilation Error:'', Err (new_Error ''Babel not loaded'')]],
       transform_calls = []\<rparr>)
   \<and> (transform (fst (sanitize codeBody)) = Inl e \<longrightarrow> isSyntaxError e \<longrightarrow>
        fst (compileComponent (Some transform) createComponent codeBody)
          \<noteq> fst (compileComponent None createComponent codeBody)
        \<and> fst (compileComponent_002 (Some transform) createComponent codeBody)
          \<noteq> fst (compileComponent_002 None createComponent codeBody))"
  by (auto simp: compileComponent_def compileComponent_002_def rethrow_def new_Error_def
      isSyntaxError_def split: prod.splits thrown.splits)

theorem C7_transpiler_unavailable_witness:
  "isSyntaxError (Thrown \<lparr>name = ''SyntaxError'', message = Some ''Unexpected token (1:7)''\<rparr>)
   \<and> fst (compileComponent
          (Some (\<lambda>src. Inl (Thrown \<lparr>name = ''SyntaxError'', message = Some ''Unexpected token (1:7)''\<rparr>)))
          (\<lambda>transformed returnStatement. Inr ()) ''return <a/;'')
     \<noteq> fst (compileComponent None (\<lambda>transformed returnStatement. Inr ()) ''return <a/;'')"
  using C7_transpiler_unavailable
      [of "\<lambda>transformed returnStatement. Inr ()" "''return <a/;''"
        "\<lambda>src. Inl (Thrown \<lparr>name = ''SyntaxError'', message = Some ''Unexpected token (1:7)''\<rparr>)"
        "(Thrown \<lparr>name = ''SyntaxError'', message = Some ''Unexpected token (1:7)''\<rparr>)",
        THEN conjunct2, THEN conjunct2]
  by (simp add: isSyntaxError_def)

text \<open>
  C8. When the transform throws, \<open>compileComponent\<close> throws the same value, after it
  has written the text it gave to the transform, and then the value, to the console.
  When the synthesis throws, it throws that value. It returns a component only when
  both have succeeded, and then it is the component the synthesis returned.
\<close>

theorem C8_diagnostic_propagated:
  "(transform (fst (sanitize codeBody)) = Inl babelErr \<longrightarrow>
      compileComponent (Some transform) createComponent codeBody =
        (Inl babelErr,
         \<lparr>console_error = [[Str ''Babel Transform Failed on:'', Str (fst (sanitize codeBody))],
                            [Str ''Compilation Error:'', Err babelErr]],
          transform_calls = [fst (sanitize codeBody)]\<rparr>))
   \<and> (transform (fst (sanitize codeBody)) = Inr transformed \<longrightarrow>
      createComponent transformed (snd (sanitize codeBody)) = Inl err \<longrightarrow>
      fst (compileComponent (Some transform) createComponent codeBody) = Inl err)
   \<and> (fst (compileComponent Babel createComponent codeBody) = Inr Component \<longrightarrow>
        (\<exists>transform transformed. Babel = Some transform
           \<and> transform (fst (sanitize codeBody)) = Inr transformed
           \<and> createComponent transformed (snd (sanitize codeBody)) = Inr Component))"
  by (auto simp: compileComponent_def rethrow_def split: prod.splits option.splits sum.splits)

theorem C8_diagnostic_propagated_witness:
  "compileComponent
      (Some (\<lambda>src. Inl (Thrown \<lparr>name = ''SyntaxError'', message = Some ''Unexpected token (1:7)''\<rparr>)))
      (\<lambda>transformed returnStatement. Inr ()) ''return <a/;''
     = (Inl (Thrown \<lparr>name = ''SyntaxError'', message = Some ''Unexpected token (1:7)''\<rparr>),
        \<lparr>console_error =
           [[Str ''Babel Transform Failed on:'',
             Str ''\<newline>        const DynamicComponent = (props) => {\<newline>          return <a/;\<newline>        };\<newline>      ''],
            [Str ''Compilation Error:'',
             Err (Thrown \<lparr>name = ''SyntaxError'', message = Some ''Unexpected token (1:7)''\<rparr>)]],
         transform_calls =
           [''\<newline>        const DynamicComponent = (props) => {\<newline>          return <a/;\<newline>        };\<newline>      '']\<rparr>)
   \<and> fst (compileComponent (Some (\<lambda>src. Inr ''lowered''))
          (\<lambda>transformed returnStatement.
             Inl (Thrown \<lparr>name = ''ReferenceError'', message = Some ''foo is not defined''\<rparr>) :: thrown + unit)
          ''return <a/>;'')
       = Inl (Thrown \<lparr>name = ''ReferenceError'', message = Some ''foo is not defined''\<rparr>)
   \<and> fst (compileComponent (Some (\<lambda>src. Inr ''lowered''))
          (\<lambda>transformed returnStatement. Inr (transformed, returnStatement)) ''return <a/>;'')
       = Inr (''lowered'', ''return DynamicComponent;'')"
proof (intro conjI)
  have src: "sanitize ''return <a/;'' =
      (''\<newline>        const DynamicComponent = (props) => {\<newline>          return <a/;\<newline>        };\<newline>      '',
       ''return DynamicComponent;'')"
    by (simp add: sanitize_defs pattern_defs class_defs)
  show "compileComponent
      (Some (\<lambda>src. Inl (Thrown \<lparr>name = ''SyntaxError'', message = Some ''Unexpected token (1:7)''\<rparr>)))
      (\<lambda>transformed returnStatement. Inr ()) ''return <a/;''
     = (Inl (Thrown \<lparr>name = ''SyntaxError'', message = Some ''Unexpected token (1:7)''\<rparr>),
        \<lparr>console_error =
           [[Str ''Babel Transform Failed on:'',
             Str ''\<newline>        const DynamicComponent = (props) => {\<newline>          return <a/;\<newline>        };\<newline>      ''],
            [Str ''Compilation Error:'',
             Err (Thrown \<lparr>name = ''SyntaxError'', message = Some ''Unexpected token (1:7)''\<rparr>)]],
         transform_calls =
           [''\<newline>        const DynamicComponent = (props) => {\<newline>          return <a/;\<newline>        };\<newline>      '']\<rparr>)"
    using C8_diagnostic_propagated
      [where transform = "\<lambda>src. Inl (Thrown \<lparr>name = ''SyntaxError'', message = Some ''Unexpected token (1:7)''\<rparr>)"
        and codeBody = "''return <a/;''"
        and babelErr = "(Thrown \<lparr>name = ''SyntaxError'', message = Some ''Unexpected token (1:7)''\<rparr>)"
        and createComponent = "\<lambda>transformed returnStatement. Inr ()", THEN conjunct1]
    by (simp add: src)
  have ok: "sanitize ''return <a/>;'' =
      (''\<newline>        const DynamicComponent = (props) => {\<newline>          return <a/>;\<newline>        };\<newline>      '',
       ''return DynamicComponent;'')"
    by (simp add: sanitize_defs pattern_defs class_defs)
  show "fst (compileComponent (Some (\<lambda>src. Inr ''lowered''))
          (\<lambda>transformed returnStatement.
             Inl (Thrown \<lparr>name = ''ReferenceError'', message = Some ''foo is not defined''\<rparr>) :: thrown + unit)
          ''return <a/>;'')
       = Inl (Thrown \<lparr>name = ''ReferenceError'', message = Some ''foo is not defined''\<rparr>)"
    using C8_diagnostic_propagated
      [where transform = "\<lambda>src. Inr ''lowered''" and codeBody = "''return <a/>;''"
        and transformed = "''lowered''"
        and createComponent = "\<lambda>transformed returnStatement.
             Inl (Thrown \<lparr>name = ''ReferenceError'', message = Some ''foo is not defined''\<rparr>)"
        and err = "(Thrown \<lparr>name = ''ReferenceError'', message = Some ''foo is not defined''\<rparr>)",
        THEN conjunct2, THEN conjunct1]
    by simp
  show "fst (compileComponent (Some (\<lambda>src. Inr ''lowered''))
          (\<lambda>transformed returnStatement. Inr (transformed, returnStatement)) ''return <a/>;'')
       = Inr (''lowered'', ''return DynamicComponent;'')"
    by (simp add: compileComponent_def ok)
qed

section \<open>Properties of the frame gate\<close>

lemma fold_customUseFrame:
  "fold customUseFrame callbacks subscribers =
     subscribers
       @ map (\<lambda>callback current state delta w.
                if paused current then w else callback state delta w) callbacks"
  by (induction callbacks arbitrary: subscribers) (simp_all add: customUseFrame_def useFrame_def)

lemma frame_paused:
  "paused current \<Longrightarrow> frame current state delta (fold customUseFrame callbacks []) w = w"
  unfolding fold_customUseFrame frame_def
  by (induction callbacks arbitrary: w) simp_all

lemma frame_running:
  "\<not> paused current \<Longrightarrow>
     frame current state delta (fold customUseFrame callbacks []) w
       = fold (\<lambda>callback. callback state delta) callbacks w"
  unfolding fold_customUseFrame frame_def
  by (induction callbacks arbitrary: w) simp_all

text \<open>
  C5. The callbacks registered through the gate, in any number, under any number of
  ticks: while the flag is set a tick leaves the world of the component as it is, so
  no callback has run; while it is clear a tick is the run of every callback, once and
  in order, on the state and the elapsed time the loop passed. The callbacks are
  arbitrary, so they may count or record their calls: the witness does that for three
  callbacks, ten paused ticks and one running tick.
\<close>

theorem C5_frame_gate:
  "(paused current \<longrightarrow> frames n current state delta (fold customUseFrame callbacks []) w = w)
   \<and> (\<not> paused current \<longrightarrow>
        frame current state delta (fold customUseFrame callbacks []) w
          = fold (\<lambda>callback. callback state delta) callbacks w)"
proof (intro conjI impI)
  assume p: "paused current"
  show "frames n current state delta (fold customUseFrame callbacks []) w = w"
    by (induction n) (simp_all add: frame_paused [OF p])
next
  assume "\<not> paused current"
  then show "frame current state delta (fold customUseFrame callbacks []) w
          = fold (\<lambda>callback. callback state delta) callbacks w"
    by (rule frame_running)
qed

theorem C5_frame_gate_witness:
  "paused \<lparr>paused = True\<rparr>
   \<and> frames 10 \<lparr>paused = True\<rparr> ''state'' (16::nat)
        (fold customUseFrame
           [\<lambda>state delta w. w @ [(1::nat, state, delta)],
            \<lambda>state delta w. w @ [(2, state, delta)],
            \<lambda>state delta w. w @ [(3, state, delta)]] []) [] = []
   \<and> \<not> paused \<lparr>paused = False\<rparr>
   \<and> frame \<lparr>paused = False\<rparr> ''state'' (16::nat)
        (fold customUseFrame
           [\<lambda>state delta w. w @ [(1::nat, state, delta)],
            \<lambda>state delta w. w @ [(2, state, delta)],
            \<lambda>state delta w. w @ [(3, state, delta)]] []) []
       = [(1, ''state'', 16), (2, ''state'', 16), (3, ''state'', 16)]"
  using C5_frame_gate [of "\<lparr>paused = True\<rparr>" 10 "''state''" "16::nat"
        "[\<lambda>state delta w. w @ [(1::nat, state, delta)],
          \<lambda>state delta w. w @ [(2, state, delta)],
          \<lambda>state delta w. w @ [(3, state, delta)]]" "[]"]
     C5_frame_gate [of "\<lparr>paused = False\<rparr>" 10 "''state''" "16::nat"
        "[\<lambda>state delta w. w @ [(1::nat, state, delta)],
          \<lambda>state delta w. w @ [(2, state, delta)],
          \<lambda>state delta w. w @ [(3, state, delta)]]" "[]"]
  by simp

section \<open>Properties of the application state\<close>

text \<open>
  A key that neither the custom simulations nor the library has, and that is not the
  name of a property every object inherits: the handler leaves the status at \<open>ERROR\<close>
  and returns without waiting; the current simulation and the key of the scene are the
  ones from before the call.
\<close>

lemma preset_unknown_key_rejected:
  assumes "map_of (customSims s) key = None"
    and "map_of library key = None"
    and "key \<notin> set Object_prototype_names"
  shows "status (fst (handlePresetClick_start library key s)) = ERROR"
    and "data (fst (handlePresetClick_start library key s)) = data s"
    and "refreshKey (fst (handlePresetClick_start library key s)) = refreshKey s"
    and "snd (handlePresetClick_start library key s) = None"
  using assms by (simp_all add: handlePresetClick_start_def lookupSim_def get_property_def)


lemma refreshKey_step: "refreshKey s \<le> refreshKey (step library ev s)"
  by (cases ev)
    (auto simp: step_def performGeneration_start_def performGeneration_settle_def
      handlePresetClick_start_def handlePresetClick_settle_def handleReset_def Let_def
      split: sum.splits option.splits)

lemma refreshKey_run: "refreshKey s \<le> refreshKey (run library evs s)"
  unfolding run_def
proof (induction evs arbitrary: s)
  case Nil
  then show ?case by simp
next
  case (Cons ev evs)
  have "refreshKey s \<le> refreshKey (step library ev s)"
    by (rule refreshKey_step)
  also have "\<dots> \<le> refreshKey (fold (step library) evs (step library ev s))"
    by (rule Cons.IH)
  finally show ?case by simp
qed

text \<open>
  C3, as the claim states it, fails. The user selects the pendulum of the library and it
  is installed; a prompt is submitted and its generation is in flight; the user resets,
  which installs the pendulum again under a new key; the generation settles with the
  comet. The state then shows the comet: the result of the request that was in flight
  when the pendulum was installed.
\<close>

theorem C3_stale_result_installed:
  "status (run [(''double pendulum'', pendulum_sim)]
       [PresetClick ''double pendulum'', PresetSettled (Own pendulum_sim), Submit ''a comet'']
       (App_initial ''return <a/>;'' ''# Welcome'')) = GENERATING
   \<and> code (data (run [(''double pendulum'', pendulum_sim)]
       [PresetClick ''double pendulum'', PresetSettled (Own pendulum_sim), Submit ''a comet'', Reset]
       (App_initial ''return <a/>;'' ''# Welcome''))) = Some (componentCode pendulum_sim)
   \<and> refreshKey (run [(''double pendulum'', pendulum_sim)]
       [PresetClick ''double pendulum'', PresetSettled (Own pendulum_sim), Submit ''a comet'', Reset]
       (App_initial ''return <a/>;'' ''# Welcome'')) = 2
   \<and> code (data (run [(''double pendulum'', pendulum_sim)]
       [PresetClick ''double pendulum'', PresetSettled (Own pendulum_sim), Submit ''a comet'', Reset,
        GenerationSettled (Inr (Own comet_sim))]
       (App_initial ''return <a/>;'' ''# Welcome''))) = Some (componentCode comet_sim)
   \<and> componentCode comet_sim \<noteq> componentCode pendulum_sim"
  by (simp add: run_def step_def App_initial_def controls_enabled_def
      handlePresetClick_start_def handlePresetClick_settle_def lookupSim_def get_property_def
      performGeneration_start_def performGeneration_settle_def handleReset_def
      find_entry_def install_def field_of_def sources_of_def pendulum_sim_def comet_sim_def
      trim_def isSpace_def)

text \<open>
  C3, amended. No handler carries a generation with it and none discards a result: when
  a generation settles with a result, after any events whatsoever, the state shows that
  result, the status is \<open>READY\<close> and the key of the scene has grown by one; so the state
  shows the request that settled last. The key never decreases. What limits overlap is
  the page: while the status is neither \<open>READY\<close> nor \<open>IDLE\<close> a prompt and a click in
  the library do nothing, and a submitted prompt brings the page into that condition.
\<close>

theorem C3_last_settled_wins:
  "data (run library (evs @ [GenerationSettled (Inr result)]) s) = install result (sources_of result)
   \<and> status (run library (evs @ [GenerationSettled (Inr result)]) s) = READY
   \<and> refreshKey (run library (evs @ [GenerationSettled (Inr result)]) s)
       = refreshKey (run library evs s) + 1
   \<and> refreshKey s \<le> refreshKey (run library evs s)
   \<and> (\<not> controls_enabled s \<longrightarrow>
        step library (Submit prompt) s = s \<and> step library (PresetClick key) s = s)
   \<and> (controls_enabled s \<longrightarrow> trim prompt \<noteq> [] \<longrightarrow>
        \<not> controls_enabled (step library (Submit prompt) s))"
  by (auto simp: run_def step_def performGeneration_settle_def refreshKey_run [unfolded run_def]
      controls_enabled_def performGeneration_start_def)

theorem C3_last_settled_wins_witness:
  "\<not> controls_enabled (step [] (Submit ''a comet'') (App_initial ''return <a/>;'' ''# Welcome''))
   \<and> step [(''double pendulum'', pendulum_sim)] (PresetClick ''double pendulum'')
         (step [] (Submit ''a comet'') (App_initial ''return <a/>;'' ''# Welcome''))
       = step [] (Submit ''a comet'') (App_initial ''return <a/>;'' ''# Welcome'')
   \<and> controls_enabled (App_initial ''return <a/>;'' ''# Welcome'')
   \<and> data (run [(''double pendulum'', pendulum_sim)]
         ([Submit ''a comet'', Reset] @ [GenerationSettled (Inr (Own comet_sim))])
         (App_initial ''return <a/>;'' ''# Welcome'')) = install (Own comet_sim) (Some [])"
proof -
  let ?init = "App_initial ''return <a/>;'' ''# Welcome''"
  have e: "controls_enabled ?init"
    by (simp add: controls_enabled_def App_initial_def)
  have t: "trim ''a comet'' \<noteq> []"
    by (simp add: trim_def isSpace_def)
  have d: "\<not> controls_enabled (step [] (Submit ''a comet'') ?init)"
    using C3_last_settled_wins [where s = ?init and library = "[]" and prompt = "''a comet''"] e t
    by simp
  have "step [(''double pendulum'', pendulum_sim)] (PresetClick ''double pendulum'')
         (step [] (Submit ''a comet'') ?init) = step [] (Submit ''a comet'') ?init"
    using C3_last_settled_wins
      [where s = "step [] (Submit ''a comet'') ?init"
        and library = "[(''double pendulum'', pendulum_sim)]" and key = "''double pendulum''"] d
    by simp
  moreover have "data (run [(''double pendulum'', pendulum_sim)]
         ([Submit ''a comet'', Reset] @ [GenerationSettled (Inr (Own comet_sim))]) ?init)
       = install (Own comet_sim) (Some [])"
    using C3_last_settled_wins
      [where s = ?init and library = "[(''double pendulum'', pendulum_sim)]"
        and evs = "[Submit ''a comet'', Reset]" and result = "Own comet_sim"]
    by (simp add: comet_sim_def sources_of_def)
  ultimately show ?thesis using e d by simp
qed

section \<open>Properties of the error boundary\<close>

lemma or_else_nonempty: "b \<noteq> [] \<Longrightarrow> or_else a b \<noteq> []"
  by (cases a) (simp_all add: or_else_def)

text \<open>
  C1, as the claim states it, fails. A text that compiles, whose component throws an
  \<open>Error\<close> when it is constructed: the boundary has caught the exception, shows its
  message and has logged it, and \<open>onError\<close> has not been called.
\<close>

theorem C1_boundary_without_callback:
  "DynamicScene
       (compileComponent (Some (\<lambda>src. Inr src)) (\<lambda>transformed returnStatement. Inr ()))
       (\<lambda>Component. Inl (new_Error ''boom'') :: thrown + unit) ''return <mesh/>;''
     = Inr \<lparr>shown = ErrorFallback (Some ''boom''),
            boundary = \<lparr>hasError = True, error = Some ''boom''\<rparr>,
            onError_calls = [],
            console = [[Str ''Runtime Error in Dynamic Component:'', Err (new_Error ''boom'')]]\<rparr>"
  by (simp add: DynamicScene_def mountScene_def compileComponent_def boundary_catch_def
      getDerivedStateFromError_def read_message_def ErrorBoundary_render_def new_Error_def
      split: prod.splits)

text \<open>
  A thrown \<open>null\<close> or \<open>undefined\<close> has no message to read: reading it throws, in the
  boundary as in the \<open>catch\<close> of the scene. The boundary shows no fallback, \<open>onError\<close>
  is not called, and the scene is gone.
\<close>

lemma thrown_nullish_unhandled:
  assumes "nullish thrownValue"
  shows "isl (boundary_catch label thrownValue sc)"
    and "fst (compile codeText) = Inl thrownValue \<Longrightarrow>
           isl (mountScene label defaultMessage compile render codeText)"
    and "fst (compile codeText) = Inr Component \<Longrightarrow> render Component = Inl thrownValue \<Longrightarrow>
           isl (mountScene label defaultMessage compile render codeText)"
  using assms
  by (auto simp: mountScene_def boundary_catch_def getDerivedStateFromError_def
      read_message_def nullish_def Let_def split: prod.splits sum.splits)

text \<open>
  C1, amended. The thrown value is an object (anything but \<open>null\<close> and \<open>undefined\<close>).
  When the boundary catches it, the boundary keeps the message of the value in its own
  state, shows the fallback with that message and logs the value to the console under
  the label of its scene; the calls of \<open>onError\<close> are the ones from before. So a text
  that compiles and whose component throws when it is constructed leaves \<open>onError\<close>
  without a call, and the page shows no error of its own. It is the failure of the
  compilation that calls \<open>onError\<close>: once, with the message of the thrown value, or with
  the default text of the scene (\<open>Failed to compile code\<close> in the first scene,
  \<open>Compilation failed\<close> in the second) when that message is missing or empty, so never
  with an empty message; nothing is mounted then, the boundary has caught nothing, and
  the page shows that message.
\<close>

theorem C1_boundary_and_callback:
  "(case boundary_catch label (Thrown e) sc of
      Inl typeError \<Rightarrow> False
    | Inr sc' \<Rightarrow>
        onError_calls sc' = onError_calls sc
        \<and> boundary sc' = \<lparr>hasError = True, error = message e\<rparr>
        \<and> shown sc' = ErrorFallback (message e)
        \<and> console sc' = console sc @ [[Str label, Err (Thrown e)]])
   \<and> (fst (compile codeText) = Inr Component \<longrightarrow> render Component = Inl (Thrown e) \<longrightarrow>
        (case DynamicScene compile render codeText of
           Inl typeError \<Rightarrow> False
         | Inr sc' \<Rightarrow>
             onError_calls sc' = []
             \<and> boundary sc' = \<lparr>hasError = True, error = message e\<rparr>
             \<and> shown sc' = ErrorFallback (message e)
             \<and> console sc' = console_error (snd (compile codeText))
                  @ [[Str ''Runtime Error in Dynamic Component:'', Err (Thrown e)]]
             \<and> fold handleRuntimeError (onError_calls sc') s = s)
        \<and> (case DynamicScene_2 compile render codeText of
           Inl typeError \<Rightarrow> False
         | Inr sc' \<Rightarrow>
             onError_calls sc' = []
             \<and> boundary sc' = \<lparr>hasError = True, error = message e\<rparr>
             \<and> shown sc' = ErrorFallback (message e)
             \<and> console sc' = console_error (snd (compile codeText))
                  @ [[Str ''Runtime Error:'', Err (Thrown e)]]
             \<and> fold handleRuntimeError (onError_calls sc') s = s))
   \<and> (fst (compile codeText) = Inl (Thrown err) \<longrightarrow>
        (case DynamicScene compile render codeText of
           Inl typeError \<Rightarrow> False
         | Inr sc' \<Rightarrow>
             onError_calls sc' = [or_else (message err) ''Failed to compile code'']
             \<and> or_else (message err) ''Failed to compile code'' \<noteq> []
             \<and> shown sc' = Null
             \<and> \<not> hasError (boundary sc')
             \<and> app_error (fold handleRuntimeError (onError_calls sc') s)
                 = Some (''Runtime Error: '' @ or_else (message err) ''Failed to compile code''))
        \<and> (case DynamicScene_2 compile render codeText of
           Inl typeError \<Rightarrow> False
         | Inr sc' \<Rightarrow>
             onError_calls sc' = [or_else (message err) ''Compilation failed'']
             \<and> or_else (message err) ''Compilation failed'' \<noteq> []
             \<and> shown sc' = Null
             \<and> \<not> hasError (boundary sc')
             \<and> app_error (fold handleRuntimeError (onError_calls sc') s)
                 = Some (''Runtime Error: '' @ or_else (message err) ''Compilation failed'')))"
proof (intro conjI impI)
  show "case boundary_catch label (Thrown e) sc of
      Inl typeError \<Rightarrow> False
    | Inr sc' \<Rightarrow>
        onError_calls sc' = onError_calls sc
        \<and> boundary sc' = \<lparr>hasError = True, error = message e\<rparr>
        \<and> shown sc' = ErrorFallback (message e)
        \<and> console sc' = console sc @ [[Str label, Err (Thrown e)]]"
    by (simp add: boundary_catch_def getDerivedStateFromError_def read_message_def
        ErrorBoundary_render_def)
qed (auto simp: DynamicScene_def DynamicScene_2_def mountScene_def boundary_catch_def
      getDerivedStateFromError_def read_message_def ErrorBoundary_render_def or_else_nonempty
      handleRuntimeError_def Let_def split: prod.splits sum.splits)

theorem C1_boundary_and_callback_witness:
  "fst (compileComponent (Some (\<lambda>src. Inr src)) (\<lambda>transformed returnStatement. Inr ())
          ''export default () => <mesh/>;'') = Inr ()
   \<and> DynamicScene
         (compileComponent (Some (\<lambda>src. Inr src)) (\<lambda>transformed returnStatement. Inr ()))
         (\<lambda>Component. Inl (Thrown \<lparr>name = ''TypeError'', message = Some ''x is undefined''\<rparr>)
              :: thrown + unit)
         ''export default () => <mesh/>;''
       = Inr \<lparr>shown = ErrorFallback (Some ''x is undefined''),
              boundary = \<lparr>hasError = True, error = Some ''x is undefined''\<rparr>,
              onError_calls = [],
              console = [[Str ''Runtime Error in Dynamic Component:'',
                          Err (Thrown \<lparr>name = ''TypeError'', message = Some ''x is undefined''\<rparr>)]]\<rparr>
   \<and> fst (compileComponent None (\<lambda>transformed returnStatement. Inr ())
          ''export default () => <mesh/>;'')
       = Inl (new_Error ''Babel not loaded. Please ensure Babel is included in index.html'')
   \<and> map_sum id onError_calls (DynamicScene
         (compileComponent None (\<lambda>transformed returnStatement. Inr ()))
         (\<lambda>Component. Inr () :: thrown + unit) ''export default () => <mesh/>;'')
       = Inr [''Babel not loaded. Please ensure Babel is included in index.html'']
   \<and> map_sum id onError_calls (DynamicScene_2
         (\<lambda>codeText. (Inl (Thrown \<lparr>name = ''Error'', message = Some []\<rparr>) :: thrown + unit,
                      \<lparr>console_error = [], transform_calls = []\<rparr>))
         (\<lambda>Component. Inr () :: thrown + unit) ''export default () => <mesh/>;'')
       = Inr [''Compilation failed'']"
proof -
  let ?compile = "compileComponent (Some (\<lambda>src. Inr src)) (\<lambda>transformed returnStatement. Inr ())"
  let ?missing = "compileComponent None (\<lambda>transformed returnStatement. Inr ())"
  let ?silent = "\<lambda>codeText. (Inl (Thrown \<lparr>name = ''Error'', message = Some []\<rparr>) :: thrown + unit,
                      \<lparr>console_error = [], transform_calls = []\<rparr>)"
  let ?text = "''export default () => <mesh/>;''"
  let ?e = "\<lparr>name = ''TypeError'', message = Some ''x is undefined''\<rparr>"
  have ok: "fst (?compile ?text) = Inr ()"
    by (simp add: compileComponent_def split: prod.splits)
  have fx: "console_error (snd (?compile ?text)) = []"
    by (simp add: compileComponent_def split: prod.splits)
  have ko: "fst (?missing ?text)
       = Inl (Thrown \<lparr>name = ''Error'',
                message = Some ''Babel not loaded. Please ensure Babel is included in index.html''\<rparr>)"
    by (simp add: compileComponent_def rethrow_def new_Error_def split: prod.splits)
  have quiet: "fst (?silent ?text) = Inl (Thrown \<lparr>name = ''Error'', message = Some []\<rparr>)"
    by simp
  have thrown: "(\<lambda>Component. Inl (Thrown ?e) :: thrown + unit) () = Inl (Thrown ?e)"
    by simp
  note caught = C1_boundary_and_callback
        [where compile = ?compile and codeText = ?text and Component = "()"
          and render = "\<lambda>Component. Inl (Thrown ?e)" and e = ?e and s = "App_initial [] []",
          THEN conjunct2, THEN conjunct1, THEN mp, THEN mp, OF ok thrown, THEN conjunct1]
  note failed = C1_boundary_and_callback
        [where compile = ?missing and codeText = ?text and render = "\<lambda>Component. Inr ()"
          and s = "App_initial [] []" and err = "\<lparr>name = ''Error'',
                message = Some ''Babel not loaded. Please ensure Babel is included in index.html''\<rparr>",
          THEN conjunct2, THEN conjunct2, THEN mp, OF ko, THEN conjunct1]
  note defaulted = C1_boundary_and_callback
        [where compile = ?silent and codeText = ?text and render = "\<lambda>Component. Inr ()"
          and s = "App_initial [] []" and err = "\<lparr>name = ''Error'', message = Some []\<rparr>",
          THEN conjunct2, THEN conjunct2, THEN mp, OF quiet, THEN conjunct2]
  from caught fx have 1: "DynamicScene ?compile
         (\<lambda>Component. Inl (Thrown ?e) :: thrown + unit) ?text
       = Inr \<lparr>shown = ErrorFallback (Some ''x is undefined''),
              boundary = \<lparr>hasError = True, error = Some ''x is undefined''\<rparr>,
              onError_calls = [],
              console = [[Str ''Runtime Error in Dynamic Component:'', Err (Thrown ?e)]]\<rparr>"
    by (cases "DynamicScene ?compile (\<lambda>Component. Inl (Thrown ?e) :: thrown + unit) ?text")
      (auto intro: scene.equality)
  from failed have 2: "map_sum id onError_calls (DynamicScene ?missing
         (\<lambda>Component. Inr () :: thrown + unit) ?text)
       = Inr [''Babel not loaded. Please ensure Babel is included in index.html'']"
    by (cases "DynamicScene ?missing (\<lambda>Component. Inr () :: thrown + unit) ?text")
      (auto simp: or_else_def)
  from defaulted have 4: "map_sum id onError_calls (DynamicScene_2 ?silent
         (\<lambda>Component. Inr () :: thrown + unit) ?text) = Inr [''Compilation failed'']"
    by (cases "DynamicScene_2 ?silent (\<lambda>Component. Inr () :: thrown + unit) ?text")
      (auto simp: or_else_def)
  from ko have 3: "fst (?missing ?text)
       = Inl (new_Error ''Babel not loaded. Please ensure Babel is included in index.html'')"
    by (simp add: new_Error_def)
  from ok 1 3 2 4 show ?thesis
    by (intro conjI)
qed

section \<open>Properties of the generation service\<close>

text \<open>The test of a literal pattern under the \<open>i\<close> flag is the occurrence of the literal.\<close>

lemma rx_match_lit_i: "(rx_match (lit_i w) prev s \<noteq> None) = prefix_ci w s"
proof (induction w arbitrary: prev s)
  case Nil
  then show ?case by (simp add: lit_i_def)
next
  case (Cons a w)
  show ?case
  proof (cases s)
    case Nil
    then show ?thesis by (simp add: lit_i_def)
  next
    case (Cons c cs)
    with Cons.IH [of "Some c" cs] show ?thesis by (auto simp: lit_i_def)
  qed
qed

lemma rx_search_lit_i: "(rx_search (lit_i w) prev s \<noteq> None) = occurs_ci w s"
proof (induction s arbitrary: prev)
  case Nil
  have "(rx_match (lit_i w) prev [] \<noteq> None) = prefix_ci w []"
    by (rule rx_match_lit_i)
  then show ?case by (cases w) auto
next
  case (Cons c cs)
  have m: "(rx_match (lit_i w) prev (c # cs) \<noteq> None) = prefix_ci w (c # cs)"
    by (rule rx_match_lit_i)
  show ?case
  proof (cases "rx_match (lit_i w) prev (c # cs)")
    case None
    with m Cons.IH [of "Some c"] show ?thesis by auto
  next
    case (Some ns)
    with m show ?thesis by auto
  qed
qed

lemma rx_test_lit_i: "rx_test (lit_i w) s = occurs_ci w s"
  unfolding rx_test_def by (rule rx_search_lit_i)

lemma hasMesh_iff: "list_ex (\<lambda>r. rx_test r jsx) rx_scene_primitive = usesScenePrimitive jsx"
  by (simp add: rx_scene_primitive_def usesScenePrimitive_def rx_test_lit_i)

lemma validate_uses: "validateSimulationCode jsx \<Longrightarrow> usesScenePrimitive jsx"
  by (simp add: validateSimulationCode_def hasMesh_iff)

lemma occurs_ci_Nil [simp]: "occurs_ci [] s"
  by (cases s) simp_all

text \<open>What an occurrence is, without the recursion.\<close>

lemma prefix_ci_iff: "prefix_ci w s = (\<exists>suf. toLowerCase s = toLowerCase w @ suf)"
proof (induction w s rule: prefix_ci.induct)
  case (1 s)
  then show ?case by (simp add: toLowerCase_def)
next
  case (2 a w)
  then show ?case by (simp add: toLowerCase_def)
next
  case (3 a w c cs)
  then show ?case by (auto simp: toLowerCase_def)
qed

lemma occurs_ci_iff:
  "occurs_ci w s = (\<exists>pre suf. toLowerCase s = pre @ toLowerCase w @ suf)"
proof (induction s)
  case Nil
  then show ?case by (auto simp: toLowerCase_def)
next
  case (Cons c cs)
  show ?case
  proof
    assume "occurs_ci w (c # cs)"
    then consider "prefix_ci w (c # cs)" | "occurs_ci w cs" by auto
    then show "\<exists>pre suf. toLowerCase (c # cs) = pre @ toLowerCase w @ suf"
    proof cases
      case 1
      then obtain suf where "toLowerCase (c # cs) = toLowerCase w @ suf"
        by (auto simp: prefix_ci_iff)
      then have "toLowerCase (c # cs) = [] @ toLowerCase w @ suf" by simp
      then show ?thesis by blast
    next
      case 2
      with Cons.IH obtain pre suf where "toLowerCase cs = pre @ toLowerCase w @ suf" by auto
      then have "toLowerCase (c # cs) = (toLower c # pre) @ toLowerCase w @ suf"
        by (simp add: toLowerCase_def)
      then show ?thesis by blast
    qed
  next
    assume "\<exists>pre suf. toLowerCase (c # cs) = pre @ toLowerCase w @ suf"
    then obtain pre suf where e: "toLowerCase (c # cs) = pre @ toLowerCase w @ suf" by blast
    show "occurs_ci w (c # cs)"
    proof (cases pre)
      case Nil
      with e have "prefix_ci w (c # cs)" by (auto simp: prefix_ci_iff)
      then show ?thesis by simp
    next
      case (Cons p ps)
      with e have "toLowerCase cs = ps @ toLowerCase w @ suf" by (simp add: toLowerCase_def)
      with Cons.IH have "occurs_ci w cs" by blast
      then show ?thesis by simp
    qed
  qed
qed

text \<open>
  The wrapper of \<open>autoFix\<close> adds no scene primitive: an occurrence in the wrapped text
  lies inside the original text.
\<close>

lemma prefix_ci_append:
  "\<forall>v \<in> set (suffixes w). v \<noteq> [] \<longrightarrow> \<not> prefix_ci v suf \<Longrightarrow>
     prefix_ci w (xs @ suf) = prefix_ci w xs"
proof (induction w arbitrary: xs)
  case Nil
  then show ?case by simp
next
  case (Cons a w)
  show ?case
  proof (cases xs)
    case Nil
    with Cons.prems show ?thesis by (cases suf) auto
  next
    case (Cons c cs)
    with Cons.IH [of cs] Cons.prems show ?thesis by auto
  qed
qed

lemma occurs_ci_append:
  assumes "\<forall>v \<in> set (suffixes w). v \<noteq> [] \<longrightarrow> \<not> prefix_ci v suf" and "\<not> occurs_ci w suf"
  shows "occurs_ci w (xs @ suf) = occurs_ci w xs"
  using assms
proof (induction xs)
  case Nil
  then show ?case by (cases w) auto
next
  case (Cons c cs)
  have "prefix_ci w ((c # cs) @ suf) = prefix_ci w (c # cs)"
    using Cons.prems(1) by (rule prefix_ci_append)
  with Cons show ?case by simp
qed

lemma autoFix_prefix:
  "w \<in> set [''mesh'', ''points'', ''line'', ''instancedMesh'', ''drei.''] \<Longrightarrow>
     occurs_ci (''<'' @ w) (''return (<group>'' @ jsx) = occurs_ci (''<'' @ w) jsx"
  by (auto simp: toLower_def)

lemma autoFix_suffix:
  "w \<in> set [''mesh'', ''points'', ''line'', ''instancedMesh'', ''drei.''] \<Longrightarrow>
     occurs_ci (''<'' @ w) (jsx @ ''</group>);'') = occurs_ci (''<'' @ w) jsx"
  by (rule occurs_ci_append) (auto simp: toLower_def)

lemma usesScenePrimitive_autoFix: "usesScenePrimitive (autoFix jsx) = usesScenePrimitive jsx"
proof (cases "str_includes jsx ''return (''")
  case True
  then show ?thesis by (simp add: autoFix_def)
next
  case False
  have w: "occurs_ci (''<'' @ w) (''return (<group>'' @ jsx @ ''</group>);'')
             = occurs_ci (''<'' @ w) jsx"
    if "w \<in> set [''mesh'', ''points'', ''line'', ''instancedMesh'', ''drei.'']" for w
    using autoFix_prefix [OF that, of "jsx @ ''</group>);''"] autoFix_suffix [OF that, of jsx]
    by (rule trans)
  have "usesScenePrimitive (''return (<group>'' @ jsx @ ''</group>);'') = usesScenePrimitive jsx"
    unfolding usesScenePrimitive_def by (rule list_ex_cong [OF refl]) (rule w)
  moreover from False have "autoFix jsx = ''return (<group>'' @ jsx @ ''</group>);''"
    by (simp only: autoFix_def if_True not_False_eq_True)
  ultimately show ?thesis by (simp only:)
qed

text \<open>
  Every response that \<open>generateSimulation\<close> returns from the model or from the cache
  has passed the validation, as long as the cache holds validated responses only, which
  the call preserves, and the prompt is not a name every object inherits; the cache
  is empty when the session starts.
\<close>

lemma generated_results_validated:
  assumes "cache_valid GENERATION_CACHE"
    and "find_entry (\<lambda>(key, sim). str_includes (trim (toLowerCase userPrompt)) key)
           (PERFECT_SIMULATIONS svc) = None"
    and "find_entry (shadowMatch (trim (toLowerCase userPrompt))) (INVISIBLE_SIMULATIONS svc) = None"
    and "trim (toLowerCase userPrompt) \<notin> set Object_prototype_names"
    and "generateSimulation svc GENERATION_CACHE userPrompt = (Inr v, cache', logged)"
  shows "(\<exists>r. v = Own r \<and> validateSimulationCode (componentCode r)) \<and> cache_valid cache'"
  using assms
  by (auto simp: generateSimulation_def generate_catch_def Let_def cache_valid_def
      get_property_def split: option.splits sum.splits if_splits)

text \<open>
  A prompt that is a name every object inherits, and that the cache has no entry of
  its own for, is answered from the cache object all the same: the call resolves with
  the inherited value, and the model is not asked.
\<close>

lemma inherited_prompt_resolves:
  assumes "find_entry (\<lambda>(key, sim). str_includes (trim (toLowerCase userPrompt)) key)
           (PERFECT_SIMULATIONS svc) = None"
    and "find_entry (shadowMatch (trim (toLowerCase userPrompt))) (INVISIBLE_SIMULATIONS svc) = None"
    and "GENERATION_CACHE (trim (toLowerCase userPrompt)) = None"
    and "trim (toLowerCase userPrompt) \<in> set Object_prototype_names"
  shows "generateSimulation svc GENERATION_CACHE userPrompt
           = (Inr (Inherited (trim (toLowerCase userPrompt))), GENERATION_CACHE, [])"
  using assms by (simp add: generateSimulation_def get_property_def Let_def)

lemma example_parse:
  "JSON_parse example_service (response_json ''Cube'' ''<mesh />'' ''# Cube'')
     = Inr \<lparr>componentCode = ''<mesh />'', explanation = ''# Cube'', title = ''Cube'',
            sources = None\<rparr>"
  "JSON_parse example_service
       (response_json ''Material'' ''return (<group><meshStandardMaterial /></group>);'' ''# Material'')
     = Inr \<lparr>componentCode = ''return (<group><meshStandardMaterial /></group>);'',
            explanation = ''# Material'', title = ''Material'', sources = None\<rparr>"
  "JSON_parse example_service (response_json ''Falling Apple'' ''<ambientLight />'' ''# Apple'')
     = Inr \<lparr>componentCode = ''<ambientLight />'', explanation = ''# Apple'',
            title = ''Falling Apple'', sources = None\<rparr>"
  by (simp_all add: example_service_def response_json_def quoted_def)

lemma example_not_in_library:
  "find_entry (\<lambda>(key, sim). str_includes (trim (toLowerCase ''a cube'')) key)
      (PERFECT_SIMULATIONS example_service) = None"
  "find_entry (\<lambda>(key, sim). str_includes (trim (toLowerCase ''a material'')) key)
      (PERFECT_SIMULATIONS example_service) = None"
  "find_entry (\<lambda>(key, sim). str_includes (trim (toLowerCase ''Falling apple '')) key)
      (PERFECT_SIMULATIONS example_service) = None"
  "find_entry (shadowMatch lowerPrompt) (INVISIBLE_SIMULATIONS example_service) = None"
  by (simp_all add: example_service_def find_entry_def trim_def toLowerCase_def toLower_def
      isSpace_def)

lemma example_not_cached:
  "get_property (Map.empty (trim (toLowerCase ''a cube''))) (trim (toLowerCase ''a cube''))
     = (None :: SimulationResponse property option)"
  "get_property (Map.empty (trim (toLowerCase ''a material''))) (trim (toLowerCase ''a material''))
     = (None :: SimulationResponse property option)"
  "get_property (Map.empty (trim (toLowerCase ''Falling apple ''))) (trim (toLowerCase ''Falling apple ''))
     = (None :: SimulationResponse property option)"
  by (simp_all add: get_property_def Object_prototype_names_def trim_def toLowerCase_def
      toLower_def isSpace_def)

lemma example_validation:
  "\<not> validateSimulationCode ''<mesh />''"
  "validateSimulationCode (autoFix ''<mesh />'')"
  "validateSimulationCode (autoFix ''return (<group><meshStandardMaterial /></group>);'')"
  "\<not> usesScenePrimitive ''<ambientLight />''"
  by (simp_all add: validateSimulationCode_def autoFix_def rx_scene_primitive_def
      rx_return_paren_def rx_group_tag_def rx_test_def lit_i_def toLower_def isSpace_def
      usesScenePrimitive_def)

text \<open>
  C9, as the claim states it, fails. The model answers with the code \<open><mesh />\<close>. That
  code fails the validation: it has no \<open>return (\<close> and no \<open><group\<close>. The call does not
  reject it: it wraps it first, validates the wrapped text, caches the response and
  returns it. And the first test of the validation looks for text, not for elements:
  a scene of a group with a \<open>meshStandardMaterial\<close> and no mesh, points, line or other
  primitive in it passes, because the name of the material starts with \<open>mesh\<close>.
\<close>

theorem C9_invalid_code_returned:
  "\<not> validateSimulationCode ''<mesh />''
   \<and> generateCode example_service ''a cube'' (or_else (Some ''g = 9.8'') [])
       = Inr (Some (response_json ''Cube'' ''<mesh />'' ''# Cube''))
   \<and> componentCode (projr (JSON_parse example_service (response_json ''Cube'' ''<mesh />'' ''# Cube'')))
       = ''<mesh />''
   \<and> fst (generateSimulation example_service Map.empty ''a cube'')
       = Inr (Own \<lparr>componentCode = ''return (<group><mesh /></group>);'', explanation = ''# Cube'',
                   title = ''Cube'', sources = Some []\<rparr>)
   \<and> fst (snd (generateSimulation example_service Map.empty ''a cube'')) ''a cube''
       = Some \<lparr>componentCode = ''return (<group><mesh /></group>);'', explanation = ''# Cube'',
                title = ''Cube'', sources = Some []\<rparr>
   \<and> fst (generateSimulation example_service Map.empty ''a material'')
       = Inr (Own \<lparr>componentCode = ''return (<group><meshStandardMaterial /></group>);'',
                   explanation = ''# Material'', title = ''Material'', sources = Some []\<rparr>)"
proof -
  have r: "research example_service p = Inr (Some ''g = 9.8'')" for p
    by (simp add: example_service_def)
  have g1: "generateCode example_service ''a cube'' (or_else (Some ''g = 9.8'') [])
       = Inr (Some (response_json ''Cube'' ''<mesh />'' ''# Cube''))"
    by (simp add: example_service_def)
  have g2: "generateCode example_service ''a material'' (or_else (Some ''g = 9.8'') [])
       = Inr (Some (response_json ''Material''
               ''return (<group><meshStandardMaterial /></group>);'' ''# Material''))"
    by (simp add: example_service_def)
  have ne: "response_json t c e \<noteq> []" for t c e
    by (simp add: response_json_def)
  have wrapped: "autoFix ''<mesh />'' = ''return (<group><mesh /></group>);''"
    "autoFix ''return (<group><meshStandardMaterial /></group>);''
       = ''return (<group><meshStandardMaterial /></group>);''"
    by (simp_all add: autoFix_def)
  have cube: "generateSimulation example_service Map.empty ''a cube''
       = (Inr (Own \<lparr>componentCode = ''return (<group><mesh /></group>);'', explanation = ''# Cube'',
                   title = ''Cube'', sources = Some []\<rparr>),
          Map.empty(trim (toLowerCase ''a cube'') \<mapsto>
                \<lparr>componentCode = ''return (<group><mesh /></group>);'', explanation = ''# Cube'',
                   title = ''Cube'', sources = Some []\<rparr>), [])"
    using example_validation(2)
    by (simp add: generateSimulation_def Let_def example_not_in_library example_not_cached
        r g1 ne example_parse wrapped)
  have material: "fst (generateSimulation example_service Map.empty ''a material'')
       = Inr (Own \<lparr>componentCode = ''return (<group><meshStandardMaterial /></group>);'',
                   explanation = ''# Material'', title = ''Material'', sources = Some []\<rparr>)"
    using example_validation(3)
    by (simp add: generateSimulation_def Let_def example_not_in_library example_not_cached
        r g2 ne example_parse wrapped)
  have lp: "trim (toLowerCase ''a cube'') = ''a cube''"
    by (simp add: trim_def toLowerCase_def toLower_def isSpace_def)
  from cube lp have cached: "fst (snd (generateSimulation example_service Map.empty ''a cube'')) ''a cube''
       = Some \<lparr>componentCode = ''return (<group><mesh /></group>);'', explanation = ''# Cube'',
                title = ''Cube'', sources = Some []\<rparr>"
    by simp
  from cube have returned: "fst (generateSimulation example_service Map.empty ''a cube'')
       = Inr (Own \<lparr>componentCode = ''return (<group><mesh /></group>);'', explanation = ''# Cube'',
                   title = ''Cube'', sources = Some []\<rparr>)"
    by simp
  have parsed: "componentCode (projr (JSON_parse example_service
        (response_json ''Cube'' ''<mesh />'' ''# Cube''))) = ''<mesh />''"
    by (simp add: example_parse)
  from example_validation(1) g1 parsed returned cached material show ?thesis
    by (intro conjI)
qed

text \<open>
  C9, amended. The prompt matches no entry of the two libraries and the cache object
  gives nothing for it (no entry of its own, and the prompt is not a name every object
  inherits), so the model is asked, and its answer parses. What is validated is the
  code of the answer after the automatic wrapping. If that text fails the validation,
  and in particular if the code of the answer nowhere has \<open><\<close> followed by \<open>mesh\<close>,
  \<open>points\<close>, \<open>line\<close>, \<open>instancedMesh\<close> or \<open>drei.\<close> in any case of letters (a longer name
  that starts so, or such text in a comment, counts as a use), then
  \<open>generateSimulation\<close> throws the validation error and the cache is as before;
  \<open>performGeneration\<close> then leaves the current simulation and the key of the scene as
  they were, so nothing is mounted, and shows the error status. If the wrapped text
  passes, the call caches and returns the response with the wrapped text as its code.
\<close>

theorem C9_validation_rejects:
  assumes "find_entry (\<lambda>(key, sim). str_includes (trim (toLowerCase userPrompt)) key)
             (PERFECT_SIMULATIONS svc) = None"
    and "find_entry (shadowMatch (trim (toLowerCase userPrompt))) (INVISIBLE_SIMULATIONS svc) = None"
    and "get_property (GENERATION_CACHE (trim (toLowerCase userPrompt)))
           (trim (toLowerCase userPrompt)) = None"
    and "research svc userPrompt = Inr researchResponse"
    and "generateCode svc userPrompt (or_else researchResponse []) = Inr (Some text)"
    and "text \<noteq> []"
    and "JSON_parse svc text = Inr parsed"
  shows "(\<not> validateSimulationCode (autoFix (componentCode parsed))
            \<or> \<not> usesScenePrimitive (componentCode parsed) \<longrightarrow>
          generateSimulation svc GENERATION_CACHE userPrompt =
            (Inl (new_Error ''Generated code missing 3D elements.''), GENERATION_CACHE,
             [[Str ''Gemini API Error:'', Err (new_Error ''Generated code missing 3D elements.'')]])
          \<and> data (performGeneration_settle (fst (generateSimulation svc GENERATION_CACHE userPrompt)) s)
              = data s
          \<and> refreshKey (performGeneration_settle
                (fst (generateSimulation svc GENERATION_CACHE userPrompt)) s) = refreshKey s
          \<and> status (performGeneration_settle
                (fst (generateSimulation svc GENERATION_CACHE userPrompt)) s) = ERROR)
       \<and> (validateSimulationCode (autoFix (componentCode parsed)) \<longrightarrow>
          generateSimulation svc GENERATION_CACHE userPrompt =
            (Inr (Own (parsed\<lparr>componentCode := autoFix (componentCode parsed), sources := Some []\<rparr>)),
             GENERATION_CACHE(trim (toLowerCase userPrompt) \<mapsto>
               parsed\<lparr>componentCode := autoFix (componentCode parsed), sources := Some []\<rparr>),
             []))"
proof (intro conjI impI)
  assume bad: "\<not> validateSimulationCode (autoFix (componentCode parsed))
            \<or> \<not> usesScenePrimitive (componentCode parsed)"
  have "\<not> validateSimulationCode (autoFix (componentCode parsed))"
    using bad validate_uses [of "autoFix (componentCode parsed)"]
    by (auto simp: usesScenePrimitive_autoFix)
  with assms have rejected: "generateSimulation svc GENERATION_CACHE userPrompt =
           (Inl (new_Error ''Generated code missing 3D elements.''), GENERATION_CACHE,
            [[Str ''Gemini API Error:'', Err (new_Error ''Generated code missing 3D elements.'')]])"
    by (simp add: generateSimulation_def generate_catch_def Let_def)
  then show "generateSimulation svc GENERATION_CACHE userPrompt =
           (Inl (new_Error ''Generated code missing 3D elements.''), GENERATION_CACHE,
            [[Str ''Gemini API Error:'', Err (new_Error ''Generated code missing 3D elements.'')]])" .
  from rejected show "data (performGeneration_settle
      (fst (generateSimulation svc GENERATION_CACHE userPrompt)) s) = data s"
    by (simp add: performGeneration_settle_def new_Error_def read_message_def)
  from rejected show "refreshKey (performGeneration_settle
      (fst (generateSimulation svc GENERATION_CACHE userPrompt)) s) = refreshKey s"
    by (simp add: performGeneration_settle_def new_Error_def read_message_def)
  from rejected show "status (performGeneration_settle
      (fst (generateSimulation svc GENERATION_CACHE userPrompt)) s) = ERROR"
    by (simp add: performGeneration_settle_def new_Error_def read_message_def)
next
  assume "validateSimulationCode (autoFix (componentCode parsed))"
  with assms show "generateSimulation svc GENERATION_CACHE userPrompt =
            (Inr (Own (parsed\<lparr>componentCode := autoFix (componentCode parsed), sources := Some []\<rparr>)),
             GENERATION_CACHE(trim (toLowerCase userPrompt) \<mapsto>
               parsed\<lparr>componentCode := autoFix (componentCode parsed), sources := Some []\<rparr>),
             [])"
    by (simp add: generateSimulation_def Let_def)
qed

theorem C9_validation_rejects_witness:
  "\<not> usesScenePrimitive ''<ambientLight />''
   \<and> componentCode (projr (JSON_parse example_service
         (response_json ''Falling Apple'' ''<ambientLight />'' ''# Apple''))) = ''<ambientLight />''
   \<and> fst (generateSimulation example_service Map.empty ''Falling apple '')
       = Inl (new_Error ''Generated code missing 3D elements.'')
   \<and> code (data (performGeneration_settle
         (fst (generateSimulation example_service Map.empty ''Falling apple ''))
         (App_initial ''return <a/>;'' ''# Welcome''))) = Some ''return <a/>;''
   \<and> validateSimulationCode (autoFix ''<mesh />'')
   \<and> fst (generateSimulation example_service Map.empty ''a cube'')
       = Inr (Own \<lparr>componentCode = autoFix ''<mesh />'', explanation = ''# Cube'',
                   title = ''Cube'', sources = Some []\<rparr>)"
proof -
  have r: "research example_service p = Inr (Some ''g = 9.8'')" for p
    by (simp add: example_service_def)
  have g: "generateCode example_service ''Falling apple '' (or_else (Some ''g = 9.8'') [])
             = Inr (Some (response_json ''Falling Apple'' ''<ambientLight />'' ''# Apple''))"
    by (simp add: example_service_def)
  have g1: "generateCode example_service ''a cube'' (or_else (Some ''g = 9.8'') [])
       = Inr (Some (response_json ''Cube'' ''<mesh />'' ''# Cube''))"
    by (simp add: example_service_def)
  have ne: "response_json t c e \<noteq> []" for t c e
    by (simp add: response_json_def)
  have bad: "\<not> validateSimulationCode (autoFix (componentCode
                   \<lparr>componentCode = ''<ambientLight />'', explanation = ''# Apple'',
                    title = ''Falling Apple'', sources = None\<rparr>))
                \<or> \<not> usesScenePrimitive (componentCode
                   \<lparr>componentCode = ''<ambientLight />'', explanation = ''# Apple'',
                    title = ''Falling Apple'', sources = None\<rparr>)"
    using example_validation(4) by simp
  have good: "validateSimulationCode (autoFix (componentCode
                   \<lparr>componentCode = ''<mesh />'', explanation = ''# Cube'', title = ''Cube'',
                    sources = None\<rparr>))"
    using example_validation(2) by simp
  note rejected =
    C9_validation_rejects [OF example_not_in_library(3) example_not_in_library(4)
      example_not_cached(3) r g ne example_parse(3),
      of "App_initial ''return <a/>;'' ''# Welcome''", THEN conjunct1, THEN mp, OF bad]
  note accepted =
    C9_validation_rejects [OF example_not_in_library(1) example_not_in_library(4)
      example_not_cached(1) r g1 ne example_parse(1), THEN conjunct2, THEN mp, OF good]
  from rejected have 1: "fst (generateSimulation example_service Map.empty ''Falling apple '')
       = Inl (new_Error ''Generated code missing 3D elements.'')"
    by (simp only: fst_conv)
  from rejected have "data (performGeneration_settle
         (fst (generateSimulation example_service Map.empty ''Falling apple ''))
         (App_initial ''return <a/>;'' ''# Welcome'')) = data (App_initial ''return <a/>;'' ''# Welcome'')"
    by (rule conjunct2 [THEN conjunct1])
  then have 2: "code (data (performGeneration_settle
         (fst (generateSimulation example_service Map.empty ''Falling apple ''))
         (App_initial ''return <a/>;'' ''# Welcome''))) = Some ''return <a/>;''"
    by (simp only: App_initial_def app.simps sim_data.simps)
  from accepted have 3: "fst (generateSimulation example_service Map.empty ''a cube'')
       = Inr (Own \<lparr>componentCode = autoFix ''<mesh />'', explanation = ''# Cube'',
                   title = ''Cube'', sources = Some []\<rparr>)"
    by simp
  have 4: "componentCode (projr (JSON_parse example_service
         (response_json ''Falling Apple'' ''<ambientLight />'' ''# Apple''))) = ''<ambientLight />''"
    by (simp add: example_parse)
  from example_validation(4) 4 1 2 example_validation(2) 3 show ?thesis
    by (intro conjI)
qed

end
